theory Spec2Isabelle
  imports Main "HOL-Library.Multiset"
begin


section \<open>Regular expressions of the request validation\<close>

text \<open>
  A string is a list of characters; a character stands for one code unit in the range
  U+0000 to U+00FF. The two patterns of \<^verbatim>\<open>src/server/index.js\<close> use three kinds of
  atoms: a literal character, \<^verbatim>\<open>\S\<close> and \<^verbatim>\<open>\d\<close>.
\<close>

datatype cclass = Lit char | NonSpace | Digit

definition white_space :: "char \<Rightarrow> bool" where
  "white_space c = (of_char c \<in> {9, 10, 11, 12, 13, 32, 160 :: nat})"

definition decimal_digit :: "char \<Rightarrow> bool" where
  "decimal_digit c = (48 \<le> (of_char c :: nat) \<and> (of_char c :: nat) \<le> 57)"

fun accepts :: "cclass \<Rightarrow> char \<Rightarrow> bool" where
  "accepts (Lit a) c = (c = a)"
| "accepts NonSpace c = (\<not> white_space c)"
| "accepts Digit c = decimal_digit c"

datatype item = One cclass | OneOrMore cclass | Exactly nat cclass

text \<open>
  \<open>consume i s\<close> lists what can be left of \<open>s\<close> after the item \<open>i\<close> has matched at its
  start, one entry per way of matching, as a backtracking matcher tries them.
\<close>

fun plus_rest :: "cclass \<Rightarrow> string \<Rightarrow> string list" where
  "plus_rest k [] = []"
| "plus_rest k (c # cs) = (if accepts k c then cs # plus_rest k cs else [])"

fun exact_rest :: "nat \<Rightarrow> cclass \<Rightarrow> string \<Rightarrow> string list" where
  "exact_rest 0 k s = [s]"
| "exact_rest (Suc n) k [] = []"
| "exact_rest (Suc n) k (c # cs) = (if accepts k c then exact_rest n k cs else [])"

fun consume :: "item \<Rightarrow> string \<Rightarrow> string list" where
  "consume (One k) s = exact_rest 1 k s"
| "consume (OneOrMore k) s = plus_rest k s"
| "consume (Exactly n k) s = exact_rest n k s"

fun match_here :: "item list \<Rightarrow> string \<Rightarrow> string list" where
  "match_here [] s = [s]"
| "match_here (i # is) s = concat (map (match_here is) (consume i s))"

text \<open>\<^verbatim>\<open>re.test(s)\<close> for a pattern without anchors: a match may start anywhere.\<close>

fun test_search :: "item list \<Rightarrow> string \<Rightarrow> bool" where
  "test_search p [] = (match_here p [] \<noteq> [])"
| "test_search p (c # cs) = (match_here p (c # cs) \<noteq> [] \<or> test_search p cs)"

text \<open>\<^verbatim>\<open>re.test(s)\<close> for a pattern between \<^verbatim>\<open>^\<close> and \<^verbatim>\<open>$\<close>: the whole string.\<close>

definition test_whole :: "item list \<Rightarrow> string \<Rightarrow> bool" where
  "test_whole p s = ([] \<in> set (match_here p s))"

definition emailRegex :: "item list" where
  "emailRegex = [OneOrMore NonSpace, One (Lit CHR ''@''), OneOrMore NonSpace,
                 One (Lit CHR ''.''), OneOrMore NonSpace]"

definition phoneRegex :: "item list" where
  "phoneRegex = [Exactly 10 Digit]"

section \<open>The referrals table\<close>

text \<open>
  One row of the table that \<^verbatim>\<open>createTablesQuery\<close> declares. The \<^verbatim>\<open>id\<close> column is
  \<open>id_col\<close>; the \<^verbatim>\<open>status\<close> column holds the text of its ENUM value; a timestamp is a
  number of seconds.
\<close>

record referral =
  id_col :: nat
  referrer_name :: string
  referrer_email :: string
  referrer_phone :: string
  referee_name :: string
  referee_email :: string
  referee_phone :: string
  course :: string
  status :: string
  created_at :: nat
  updated_at :: nat

definition status_enum :: "string list" where
  "status_enum = [''pending'', ''contacted'', ''enrolled'', ''completed'']"

definition INT_MAX :: nat where
  "INT_MAX = 2147483647"

text \<open>The five statements that the handlers pass to \<^verbatim>\<open>db.query\<close>, with their parameters.\<close>

datatype statement =
    SelectAll
  | SelectByReferrer string
  | InsertReferral string string string string string string string
  | UpdateStatus string nat
  | SelectStatistics

text \<open>
  The database: the rows in storage order, the AUTO_INCREMENT counter of the table, and
  the statements handed to \<^verbatim>\<open>db.query\<close> so far.
\<close>

record db =
  rows :: "referral list"
  auto_increment :: nat
  issued :: "statement list"

definition empty_db :: db where
  "empty_db = \<lparr>rows = [], auto_increment = 1, issued = []\<rparr>"

text \<open>
  What the handlers do not decide, for one statement: whether the server runs in strict
  SQL mode; the column collation, as the key it compares strings by (two strings are
  equal in the collation when their keys are equal; a binary collation has the string
  itself as key); the order in which the server happens to produce rows of one
  \<^verbatim>\<open>created_at\<close>, as a rank of the rows; the server clock at the time of the statement;
  and whether the statement fails for a reason outside the table (a lost connection, a
  timeout).
\<close>

record backend =
  strict_mode :: bool
  collation_key :: "string \<Rightarrow> string"
  tie_rank :: "referral \<Rightarrow> nat"
  now :: nat
  fault :: bool

text \<open>
  The row of the aggregate query as the handler sends it: \<^verbatim>\<open>COUNT(*)\<close> is a number;
  a \<^verbatim>\<open>SUM\<close> is NULL (\<open>None\<close>) or a DECIMAL, which the driver hands over as a string in
  decimal notation.
\<close>

record statistics =
  total_referrals :: nat
  pending_referrals :: "string option"
  contacted_referrals :: "string option"
  enrolled_referrals :: "string option"
  completed_referrals :: "string option"

datatype err = StorageError

datatype result =
    Rows "referral list"
  | Inserted nat
  | Updated nat
  | Aggregate statistics

subsection \<open>The statements\<close>

text \<open>
  \<^verbatim>\<open>ORDER BY created_at DESC\<close>: the rows from the latest timestamp to the earliest.
  The statement leaves the order among rows of one timestamp open; the server produces
  them by the rank it has for them at this statement (rows of one timestamp and one
  rank in storage order). Both sorts are stable.
\<close>

definition order_by_created_at_desc :: "backend \<Rightarrow> referral list \<Rightarrow> referral list" where
  "order_by_created_at_desc be rs =
     sort_key (\<lambda>r. - int (created_at r)) (sort_key (tie_rank be) rs)"

definition select_all :: "backend \<Rightarrow> db \<Rightarrow> referral list" where
  "select_all be d = order_by_created_at_desc be (rows d)"

text \<open>\<^verbatim>\<open>WHERE referrer_email = ?\<close> compares in the collation of the column.\<close>

definition where_referrer_email :: "backend \<Rightarrow> string \<Rightarrow> referral \<Rightarrow> bool" where
  "where_referrer_email be email r =
     (collation_key be (referrer_email r) = collation_key be email)"

definition select_by_referrer :: "backend \<Rightarrow> string \<Rightarrow> db \<Rightarrow> referral list" where
  "select_by_referrer be email d =
     order_by_created_at_desc be (filter (where_referrer_email be email) (rows d))"

text \<open>
  A value assigned to a \<^verbatim>\<open>VARCHAR(w)\<close> column: characters beyond the width are cut off
  when they are all spaces, or when the server is not in strict mode; in strict mode any
  other excess character fails the statement.
\<close>

definition too_long :: "nat \<Rightarrow> string \<Rightarrow> bool" where
  "too_long w s = (\<exists>c \<in> set (drop w s). c \<noteq> CHR '' '')"

definition varchar :: "nat \<Rightarrow> string \<Rightarrow> string" where
  "varchar w s = take w s"

text \<open>
  The INSERT names seven columns; \<^verbatim>\<open>id\<close> comes from the counter, \<^verbatim>\<open>status\<close> and the
  two timestamps from their DEFAULT clauses. Past the largest INT no id can be assigned.
\<close>

definition insert_referral ::
  "backend \<Rightarrow> string \<Rightarrow> string \<Rightarrow> string \<Rightarrow> string \<Rightarrow> string \<Rightarrow> string \<Rightarrow> string \<Rightarrow> db
     \<Rightarrow> (nat \<times> db) option" where
  "insert_referral be rn re rp en ee ep c d =
     (if strict_mode be \<and>
         (too_long 100 rn \<or> too_long 100 re \<or> too_long 20 rp \<or> too_long 100 en \<or>
          too_long 100 ee \<or> too_long 20 ep \<or> too_long 100 c)
      then None
      else if auto_increment d > INT_MAX then None
      else Some (auto_increment d,
             d\<lparr>rows := rows d @
                   [\<lparr>id_col = auto_increment d,
                     referrer_name = varchar 100 rn, referrer_email = varchar 100 re,
                     referrer_phone = varchar 20 rp, referee_name = varchar 100 en,
                     referee_email = varchar 100 ee, referee_phone = varchar 20 ep,
                     course = varchar 100 c, status = ''pending'',
                     created_at = now be, updated_at = now be\<rparr>],
                auto_increment := Suc (auto_increment d)\<rparr>))"

text \<open>
  \<^verbatim>\<open>UPDATE referrals SET status = ? WHERE id = ?\<close>. A matching row whose status already
  is the new value is left as it is; a row that changes has \<^verbatim>\<open>updated_at\<close> set by its
  \<^verbatim>\<open>ON UPDATE CURRENT_TIMESTAMP\<close> clause. The handler is the only caller and passes one
  of the ENUM literals, stored as given.
\<close>

definition update_row :: "backend \<Rightarrow> string \<Rightarrow> nat \<Rightarrow> referral \<Rightarrow> referral" where
  "update_row be st i r =
     (if id_col r = i \<and> status r \<noteq> st then r\<lparr>status := st, updated_at := now be\<rparr> else r)"

definition update_status :: "backend \<Rightarrow> string \<Rightarrow> nat \<Rightarrow> db \<Rightarrow> nat \<times> db" where
  "update_status be st i d =
     (length (filter (\<lambda>r. id_col r = i) (rows d)),
      d\<lparr>rows := map (update_row be st i) (rows d)\<rparr>)"

text \<open>A natural number in decimal notation.\<close>

fun decimal :: "nat \<Rightarrow> string" where
  "decimal n =
     (if n < 10 then [''0123456789'' ! n]
      else decimal (n div 10) @ [''0123456789'' ! (n mod 10)])"

declare decimal.simps [simp del]

text \<open>
  The aggregate query. \<^verbatim>\<open>COUNT(*)\<close> of no rows is 0; \<^verbatim>\<open>SUM\<close> of no rows is NULL
  (\<open>None\<close>), and of some rows the DECIMAL of their sum.
\<close>

definition sql_sum :: "nat list \<Rightarrow> string option" where
  "sql_sum xs = (if xs = [] then None else Some (decimal (sum_list xs)))"

definition case_when_status :: "string \<Rightarrow> referral \<Rightarrow> nat" where
  "case_when_status st r = (if status r = st then 1 else 0)"

definition select_statistics :: "db \<Rightarrow> statistics" where
  "select_statistics d =
     \<lparr>total_referrals = length (rows d),
      pending_referrals = sql_sum (map (case_when_status ''pending'') (rows d)),
      contacted_referrals = sql_sum (map (case_when_status ''contacted'') (rows d)),
      enrolled_referrals = sql_sum (map (case_when_status ''enrolled'') (rows d)),
      completed_referrals = sql_sum (map (case_when_status ''completed'') (rows d))\<rparr>"

text \<open>
  \<^verbatim>\<open>db.query(statement, callback)\<close>: the statement is recorded; the callback receives
  an error (\<open>Inl\<close>) or the result (\<open>Inr\<close>). The driver reports the number of rows that
  the WHERE clause of an UPDATE matched as \<^verbatim>\<open>affectedRows\<close>.
\<close>

definition db_query :: "backend \<Rightarrow> statement \<Rightarrow> db \<Rightarrow> (err + result) \<times> db" where
  "db_query be q d =
     (let d1 = d\<lparr>issued := issued d @ [q]\<rparr> in
      if fault be then (Inl StorageError, d1)
      else case q of
          SelectAll \<Rightarrow> (Inr (Rows (select_all be d1)), d1)
        | SelectByReferrer email \<Rightarrow> (Inr (Rows (select_by_referrer be email d1)), d1)
        | InsertReferral rn re rp en ee ep c \<Rightarrow>
            (case insert_referral be rn re rp en ee ep c d1 of
               None \<Rightarrow> (Inl StorageError, d1)
             | Some (i, d2) \<Rightarrow> (Inr (Inserted i), d2))
        | UpdateStatus st i \<Rightarrow>
            (case update_status be st i d1 of (n, d2) \<Rightarrow> (Inr (Updated n), d2))
        | SelectStatistics \<Rightarrow> (Inr (Aggregate (select_statistics d1)), d1))"

section \<open>The request handlers\<close>

text \<open>
  A request body is a JSON object whose members are strings: a partial map from member
  names to values. A member that is absent reads as \<^verbatim>\<open>undefined\<close>.
\<close>

type_synonym body = "string \<rightharpoonup> string"

text \<open>\<^verbatim>\<open>!v\<close> for a value that is a string or \<^verbatim>\<open>undefined\<close>.\<close>

definition falsy :: "string option \<Rightarrow> bool" where
  "falsy v = (v = None \<or> v = Some [])"

text \<open>The string that \<^verbatim>\<open>RegExp.prototype.test\<close> and the driver see for a value.\<close>

definition to_string :: "string option \<Rightarrow> string" where
  "to_string v = (case v of None \<Rightarrow> ''undefined'' | Some s \<Rightarrow> s)"

datatype payload =
    ErrorBody string
  | RowsBody "referral list"
  | CreatedBody nat string
  | MessageBody string
  | StatisticsBody statistics

type_synonym response = "nat \<times> payload"

text \<open>\<^verbatim>\<open>app.get("/api/referrals")\<close>\<close>

definition get_api_referrals :: "backend \<Rightarrow> db \<Rightarrow> response \<times> db" where
  "get_api_referrals be d =
     (case db_query be SelectAll d of
        (Inr (Rows results), d') \<Rightarrow> ((200, RowsBody results), d')
      | (_, d') \<Rightarrow> ((500, ErrorBody ''Failed to fetch referrals''), d'))"

text \<open>\<^verbatim>\<open>app.get("/api/referrals/referrer/:email")\<close>\<close>

definition get_api_referrals_referrer :: "backend \<Rightarrow> string \<Rightarrow> db \<Rightarrow> response \<times> db" where
  "get_api_referrals_referrer be email d =
     (case db_query be (SelectByReferrer email) d of
        (Inr (Rows results), d') \<Rightarrow> ((200, RowsBody results), d')
      | (_, d') \<Rightarrow> ((500, ErrorBody ''Failed to fetch referrals''), d'))"

text \<open>\<^verbatim>\<open>app.post("/api/referrals")\<close>\<close>

definition post_api_referrals :: "backend \<Rightarrow> body \<Rightarrow> db \<Rightarrow> response \<times> db" where
  "post_api_referrals be req d =
     (let referrerName = req ''referrerName'';
          referrerEmail = req ''referrerEmail'';
          referrerPhone = req ''referrerPhone'';
          refereeName = req ''refereeName'';
          refereeEmail = req ''refereeEmail'';
          refereePhone = req ''refereePhone'';
          course = req ''course''
      in
      if falsy referrerName \<or> falsy referrerEmail \<or> falsy referrerPhone \<or>
         falsy refereeName \<or> falsy refereeEmail \<or> falsy refereePhone \<or> falsy course
      then ((400, ErrorBody ''All fields are required''), d)
      else if \<not> test_search emailRegex (to_string referrerEmail) \<or>
              \<not> test_search emailRegex (to_string refereeEmail)
      then ((400, ErrorBody ''Invalid email format''), d)
      else if \<not> test_whole phoneRegex (to_string referrerPhone) \<or>
              \<not> test_whole phoneRegex (to_string refereePhone)
      then ((400, ErrorBody ''Phone number must be 10 digits''), d)
      else
        (case db_query be
                (InsertReferral (to_string referrerName) (to_string referrerEmail)
                   (to_string referrerPhone) (to_string refereeName)
                   (to_string refereeEmail) (to_string refereePhone) (to_string course)) d of
           (Inr (Inserted insertId), d') \<Rightarrow>
             ((201, CreatedBody insertId ''Referral created successfully''), d')
         | (_, d') \<Rightarrow> ((500, ErrorBody ''Failed to create referral''), d')))"

text \<open>
  \<^verbatim>\<open>app.patch("/api/referrals/:id")\<close>. The path token \<^verbatim>\<open>id\<close> is taken as the number
  that the database compares with the \<^verbatim>\<open>id\<close> column.
\<close>

definition patch_api_referrals :: "backend \<Rightarrow> nat \<Rightarrow> body \<Rightarrow> db \<Rightarrow> response \<times> db" where
  "patch_api_referrals be i req d =
     (let status = req ''status'' in
      if falsy status \<or> to_string status \<notin> set status_enum
      then ((400, ErrorBody ''Valid status is required''), d)
      else
        (case db_query be (UpdateStatus (to_string status) i) d of
           (Inr (Updated affectedRows), d') \<Rightarrow>
             if affectedRows = 0 then ((404, ErrorBody ''Referral not found''), d')
             else ((200, MessageBody ''Referral status updated successfully''), d')
         | (_, d') \<Rightarrow> ((500, ErrorBody ''Failed to update referral status''), d')))"

text \<open>\<^verbatim>\<open>app.get("/api/statistics")\<close>\<close>

definition get_api_statistics :: "backend \<Rightarrow> db \<Rightarrow> response \<times> db" where
  "get_api_statistics be d =
     (case db_query be SelectStatistics d of
        (Inr (Aggregate results), d') \<Rightarrow> ((200, StatisticsBody results), d')
      | (_, d') \<Rightarrow> ((500, ErrorBody ''Failed to fetch statistics''), d'))"

text \<open>The states that requests to the five routes lead to, from the table as created.\<close>

inductive reachable :: "db \<Rightarrow> bool" where
  init: "reachable empty_db"
| list_all: "reachable d \<Longrightarrow> reachable (snd (get_api_referrals be d))"
| list_by: "reachable d \<Longrightarrow> reachable (snd (get_api_referrals_referrer be email d))"
| create: "reachable d \<Longrightarrow> reachable (snd (post_api_referrals be req d))"
| update: "reachable d \<Longrightarrow> reachable (snd (patch_api_referrals be i req d))"
| stats: "reachable d \<Longrightarrow> reachable (snd (get_api_statistics be d))"

section \<open>Notions of the specification\<close>

text \<open>
  The shape \<^verbatim>\<open>S+@S+.S+\<close> in words: some characters that are not white space, an at
  sign, more such characters, a full stop, more such characters. A string matches the
  pattern, in the sense of a regular expression without anchors, when a part of it has
  that shape.
\<close>

definition email_shaped :: "string \<Rightarrow> bool" where
  "email_shaped m =
     (\<exists>a b c. m = a @ ''@'' @ b @ ''.'' @ c \<and> a \<noteq> [] \<and> b \<noteq> [] \<and> c \<noteq> [] \<and>
        (\<forall>x \<in> set (a @ b @ c). \<not> white_space x))"

definition matches_email_pattern :: "string \<Rightarrow> bool" where
  "matches_email_pattern s = (\<exists>u m v. s = u @ m @ v \<and> email_shaped m)"

definition ten_digits :: "string \<Rightarrow> bool" where
  "ten_digits s = (length s = 10 \<and> (\<forall>c \<in> set s. decimal_digit c))"

definition create_fields :: "string list" where
  "create_fields = [''referrerName'', ''referrerEmail'', ''referrerPhone'', ''refereeName'',
                    ''refereeEmail'', ''refereePhone'', ''course'']"

definition all_present :: "body \<Rightarrow> bool" where
  "all_present req = (\<forall>k \<in> set create_fields. \<exists>s. req k = Some s \<and> s \<noteq> [])"

text \<open>The PRIMARY KEY of the table, and the counter lying above every id in use.\<close>

definition primary_key :: "db \<Rightarrow> bool" where
  "primary_key d = distinct (map id_col (rows d))"

definition ids_below_counter :: "db \<Rightarrow> bool" where
  "ids_below_counter d = (\<forall>r \<in> set (rows d). id_col r < auto_increment d)"

text \<open>The place of an element in a list, counted from 0.\<close>

definition position :: "'a list \<Rightarrow> 'a \<Rightarrow> nat" where
  "position ys r = length (takeWhile (\<lambda>x. x \<noteq> r) ys)"

text \<open>What every reachable table satisfies: see \<open>reachable_invariant\<close>.\<close>

definition table_invariant :: "db \<Rightarrow> bool" where
  "table_invariant d = ((\<forall>r \<in> set (rows d). status r \<in> set status_enum) \<and>
                        primary_key d \<and> ids_below_counter d)"

text \<open>The row that a create request with the given values adds.\<close>

definition new_row ::
  "backend \<Rightarrow> db \<Rightarrow> string \<Rightarrow> string \<Rightarrow> string \<Rightarrow> string \<Rightarrow> string \<Rightarrow> string \<Rightarrow> string
     \<Rightarrow> referral" where
  "new_row be d rn re rp en ee ep c =
     \<lparr>id_col = auto_increment d,
      referrer_name = take 100 rn, referrer_email = take 100 re, referrer_phone = rp,
      referee_name = take 100 en, referee_email = take 100 ee, referee_phone = ep,
      course = take 100 c, status = ''pending'',
      created_at = now be, updated_at = now be\<rparr>"

text \<open>The same for a request body, with the statement that carries its seven values.\<close>

definition request_row :: "backend \<Rightarrow> db \<Rightarrow> body \<Rightarrow> referral" where
  "request_row be d req =
     new_row be d (to_string (req ''referrerName'')) (to_string (req ''referrerEmail''))
       (to_string (req ''referrerPhone'')) (to_string (req ''refereeName''))
       (to_string (req ''refereeEmail'')) (to_string (req ''refereePhone''))
       (to_string (req ''course''))"

definition request_insert :: "body \<Rightarrow> statement" where
  "request_insert req =
     InsertReferral (to_string (req ''referrerName'')) (to_string (req ''referrerEmail''))
       (to_string (req ''referrerPhone'')) (to_string (req ''refereeName''))
       (to_string (req ''refereeEmail'')) (to_string (req ''refereePhone''))
       (to_string (req ''course''))"

text \<open>
  The table takes the row of a request: the statement is executed, in strict mode no
  name, email or course has a character other than a space beyond its hundredth, and
  the id counter has not passed the largest INT.
\<close>

definition table_takes :: "backend \<Rightarrow> db \<Rightarrow> body \<Rightarrow> bool" where
  "table_takes be d req =
     (\<not> fault be \<and>
      \<not> (strict_mode be \<and>
         (too_long 100 (to_string (req ''referrerName'')) \<or>
          too_long 100 (to_string (req ''referrerEmail'')) \<or>
          too_long 100 (to_string (req ''refereeName'')) \<or>
          too_long 100 (to_string (req ''refereeEmail'')) \<or>
          too_long 100 (to_string (req ''course'')))) \<and>
      auto_increment d \<le> INT_MAX)"

text \<open>A row after a status update that matches it.\<close>

definition status_set :: "backend \<Rightarrow> string \<Rightarrow> referral \<Rightarrow> referral" where
  "status_set be st r =
     r\<lparr>status := st, updated_at := (if status r = st then updated_at r else now be)\<rparr>"

subsection \<open>Example values\<close>

definition example_backend :: backend where
  "example_backend = \<lparr>strict_mode = True, collation_key = (\<lambda>s. s), tie_rank = id_col,
                       now = 1000, fault = False\<rparr>"

definition later_backend :: backend where
  "later_backend = \<lparr>strict_mode = True, collation_key = (\<lambda>s. s), tie_rank = id_col,
                     now = 2000, fault = False\<rparr>"

definition example_request :: body where
  "example_request =
     [''referrerName'' \<mapsto> ''Ann'', ''referrerEmail'' \<mapsto> ''ann@x.org'',
      ''referrerPhone'' \<mapsto> ''0123456789'', ''refereeName'' \<mapsto> ''Bob'',
      ''refereeEmail'' \<mapsto> ''bob@y.org'', ''refereePhone'' \<mapsto> ''9876543210'',
      ''course'' \<mapsto> ''Data'']"

definition example_row :: referral where
  "example_row =
     \<lparr>id_col = 1, referrer_name = ''Ann'', referrer_email = ''ann@x.org'',
      referrer_phone = ''0123456789'', referee_name = ''Bob'',
      referee_email = ''bob@y.org'', referee_phone = ''9876543210'',
      course = ''Data'', status = ''pending'', created_at = 1000, updated_at = 1000\<rparr>"

definition example_db :: db where
  "example_db = \<lparr>rows = [example_row], auto_increment = 2, issued = []\<rparr>"

definition second_row :: referral where
  "second_row = example_row\<lparr>id_col := 2, referrer_email := ''carl@z.org'',
                  created_at := 1500, updated_at := 1500\<rparr>"

definition third_row :: referral where
  "third_row = example_row\<lparr>id_col := 3, created_at := 2000, updated_at := 2000\<rparr>"

definition three_rows_db :: db where
  "three_rows_db = \<lparr>rows = [example_row, second_row, third_row], auto_increment = 4,
                     issued = []\<rparr>"

definition created_db :: db where
  "created_db = snd (post_api_referrals example_backend example_request empty_db)"

definition enrolled_db :: db where
  "enrolled_db = snd (patch_api_referrals later_backend 1 [''status'' \<mapsto> ''enrolled''] created_db)"





definition long_name :: string where
  "long_name = replicate 101 CHR ''x''"

definition long_name_request :: body where
  "long_name_request = example_request(''referrerName'' \<mapsto> long_name)"

definition extra_fields_request :: body where
  "extra_fields_request =
     example_request(''status'' \<mapsto> ''completed'', ''id'' \<mapsto> ''77'', ''created_at'' \<mapsto> ''0'')"

section \<open>What the two patterns accept\<close>

lemma plus_rest_iff:
  "v \<in> set (plus_rest k s) \<longleftrightarrow> (\<exists>u. s = u @ v \<and> u \<noteq> [] \<and> (\<forall>c \<in> set u. accepts k c))"
proof (induction s)
  case Nil
  then show ?case by simp
next
  case (Cons c cs)
  show ?case
  proof
    assume "v \<in> set (plus_rest k (c # cs))"
    then have acc: "accepts k c" and "v = cs \<or> v \<in> set (plus_rest k cs)"
      by (auto split: if_splits)
    then show "\<exists>u. c # cs = u @ v \<and> u \<noteq> [] \<and> (\<forall>c \<in> set u. accepts k c)"
    proof (elim disjE)
      assume "v = cs"
      with acc show ?thesis by (intro exI[of _ "[c]"]) simp
    next
      assume "v \<in> set (plus_rest k cs)"
      with Cons.IH obtain u where "cs = u @ v" "\<forall>c \<in> set u. accepts k c" by blast
      with acc show ?thesis by (intro exI[of _ "c # u"]) simp
    qed
  next
    assume "\<exists>u. c # cs = u @ v \<and> u \<noteq> [] \<and> (\<forall>c \<in> set u. accepts k c)"
    then obtain u where u: "c # cs = u @ v" "u \<noteq> []" "\<forall>c \<in> set u. accepts k c" by blast
    then obtain u' where u': "u = c # u'" "cs = u' @ v" by (cases u) auto
    show "v \<in> set (plus_rest k (c # cs))"
    proof (cases "u' = []")
      case True
      with u u' show ?thesis by simp
    next
      case False
      with u u' Cons.IH have "v \<in> set (plus_rest k cs)" by auto
      with u u' show ?thesis by simp
    qed
  qed
qed

lemma exact_rest_iff:
  "v \<in> set (exact_rest n k s) \<longleftrightarrow> (\<exists>u. s = u @ v \<and> length u = n \<and> (\<forall>c \<in> set u. accepts k c))"
proof (induction n k s rule: exact_rest.induct)
  case (1 k s)
  then show ?case by auto
next
  case (2 n k)
  then show ?case by auto
next
  case (3 n k c cs)
  show ?case
  proof
    assume "v \<in> set (exact_rest (Suc n) k (c # cs))"
    then have acc: "accepts k c" and "v \<in> set (exact_rest n k cs)"
      by (auto split: if_splits)
    with 3 obtain u where "cs = u @ v" "length u = n" "\<forall>c \<in> set u. accepts k c" by blast
    with acc show "\<exists>u. c # cs = u @ v \<and> length u = Suc n \<and> (\<forall>c \<in> set u. accepts k c)"
      by (intro exI[of _ "c # u"]) simp
  next
    assume "\<exists>u. c # cs = u @ v \<and> length u = Suc n \<and> (\<forall>c \<in> set u. accepts k c)"
    then obtain u where u: "c # cs = u @ v" "length u = Suc n" "\<forall>c \<in> set u. accepts k c" by blast
    then obtain u' where u': "u = c # u'" "cs = u' @ v" by (cases u) auto
    with u 3 have "v \<in> set (exact_rest n k cs)" by auto
    with u u' show "v \<in> set (exact_rest (Suc n) k (c # cs))" by simp
  qed
qed

lemma one_rest_iff:
  "v \<in> set (exact_rest (Suc 0) (Lit a) s) \<longleftrightarrow> s = a # v"
  by (cases s) auto

lemma match_email_steps:
  "v \<in> set (match_here emailRegex w) \<longleftrightarrow>
     (\<exists>w2 w4. CHR ''@'' # w2 \<in> set (plus_rest NonSpace w) \<and>
        CHR ''.'' # w4 \<in> set (plus_rest NonSpace w2) \<and> v \<in> set (plus_rest NonSpace w4))"
proof -
  have "v \<in> set (match_here emailRegex w) \<longleftrightarrow>
     (\<exists>w1 \<in> set (plus_rest NonSpace w). \<exists>w2 \<in> set (exact_rest (Suc 0) (Lit CHR ''@'') w1).
        \<exists>w3 \<in> set (plus_rest NonSpace w2). \<exists>w4 \<in> set (exact_rest (Suc 0) (Lit CHR ''.'') w3).
          v \<in> set (plus_rest NonSpace w4))"
    unfolding emailRegex_def by (simp del: exact_rest.simps)
  also have "\<dots> \<longleftrightarrow>
     (\<exists>w2 w4. CHR ''@'' # w2 \<in> set (plus_rest NonSpace w) \<and>
        CHR ''.'' # w4 \<in> set (plus_rest NonSpace w2) \<and> v \<in> set (plus_rest NonSpace w4))"
    unfolding Bex_def one_rest_iff by blast
  finally show ?thesis .
qed

lemma test_search_iff:
  "test_search p s \<longleftrightarrow> (\<exists>u w. s = u @ w \<and> match_here p w \<noteq> [])"
proof (induction s)
  case Nil
  then show ?case by simp
next
  case (Cons c cs)
  show ?case
  proof
    assume "test_search p (c # cs)"
    then have either: "match_here p (c # cs) \<noteq> [] \<or> test_search p cs" by simp
    show "\<exists>u w. c # cs = u @ w \<and> match_here p w \<noteq> []"
    proof (cases "match_here p (c # cs) = []")
      case False
      then have "c # cs = [] @ (c # cs) \<and> match_here p (c # cs) \<noteq> []" by simp
      then show ?thesis by blast
    next
      case True
      with either have "test_search p cs" by simp
      with Cons.IH obtain u w where "cs = u @ w" "match_here p w \<noteq> []" by blast
      then show ?thesis by (intro exI[of _ "c # u"] exI[of _ w]) simp
    qed
  next
    assume "\<exists>u w. c # cs = u @ w \<and> match_here p w \<noteq> []"
    then obtain u w where uw: "c # cs = u @ w" "match_here p w \<noteq> []" by blast
    show "test_search p (c # cs)"
    proof (cases "u = []")
      case True
      with uw have "match_here p (c # cs) \<noteq> []" by simp
      then show ?thesis by simp
    next
      case False
      with uw obtain u' where "cs = u' @ w" by (cases u) auto
      with uw Cons.IH have "test_search p cs" by blast
      then show ?thesis by simp
    qed
  qed
qed

lemma match_email_iff:
  "v \<in> set (match_here emailRegex w) \<longleftrightarrow> (\<exists>m. w = m @ v \<and> email_shaped m)"
proof
  assume "v \<in> set (match_here emailRegex w)"
  then obtain w1 w2 w3 w4 where
      1: "w1 \<in> set (plus_rest NonSpace w)" and 2: "w1 = CHR ''@'' # w2"
      and 3: "w3 \<in> set (plus_rest NonSpace w2)" and 4: "w3 = CHR ''.'' # w4"
      and 5: "v \<in> set (plus_rest NonSpace w4)"
    unfolding match_email_steps by blast
  from 1 obtain a where a: "w = a @ w1" "a \<noteq> []" "\<forall>c \<in> set a. accepts NonSpace c"
    unfolding plus_rest_iff by blast
  from 3 obtain b where b: "w2 = b @ w3" "b \<noteq> []" "\<forall>c \<in> set b. accepts NonSpace c"
    unfolding plus_rest_iff by blast
  from 5 obtain c where c: "w4 = c @ v" "c \<noteq> []" "\<forall>x \<in> set c. accepts NonSpace x"
    unfolding plus_rest_iff by blast
  have "w = (a @ ''@'' @ b @ ''.'' @ c) @ v" using a b c 2 4 by simp
  moreover have "email_shaped (a @ ''@'' @ b @ ''.'' @ c)"
    unfolding email_shaped_def using a b c by (intro exI[of _ a] exI[of _ b] exI[of _ c]) auto
  ultimately show "\<exists>m. w = m @ v \<and> email_shaped m" by blast
next
  assume "\<exists>m. w = m @ v \<and> email_shaped m"
  then obtain a b c where w: "w = a @ ''@'' @ b @ ''.'' @ c @ v"
      and ne: "a \<noteq> []" "b \<noteq> []" "c \<noteq> []"
      and ns: "\<forall>x \<in> set a. accepts NonSpace x" "\<forall>x \<in> set b. accepts NonSpace x"
              "\<forall>x \<in> set c. accepts NonSpace x"
    unfolding email_shaped_def by auto
  have 5: "v \<in> set (plus_rest NonSpace (c @ v))"
    unfolding plus_rest_iff using ne ns by blast
  have 3: "CHR ''.'' # c @ v \<in> set (plus_rest NonSpace (b @ CHR ''.'' # c @ v))"
    unfolding plus_rest_iff using ne ns by blast
  have 1: "CHR ''@'' # b @ CHR ''.'' # c @ v \<in> set (plus_rest NonSpace w)"
    unfolding plus_rest_iff w using ne ns by (intro exI[of _ a]) simp
  show "v \<in> set (match_here emailRegex w)"
    unfolding match_email_steps using 1 3 5 by blast
qed

lemma emailRegex_test_iff: "test_search emailRegex s \<longleftrightarrow> matches_email_pattern s"
proof -
  have "match_here emailRegex w \<noteq> [] \<longleftrightarrow> (\<exists>m v. w = m @ v \<and> email_shaped m)" for w
  proof -
    have "match_here emailRegex w \<noteq> [] \<longleftrightarrow> (\<exists>v. v \<in> set (match_here emailRegex w))"
      by (cases "match_here emailRegex w") auto
    then show ?thesis unfolding match_email_iff by blast
  qed
  then show ?thesis unfolding test_search_iff matches_email_pattern_def by blast
qed

lemma phoneRegex_test_iff: "test_whole phoneRegex s \<longleftrightarrow> ten_digits s"
  unfolding test_whole_def phoneRegex_def ten_digits_def
  by (simp add: exact_rest_iff del: exact_rest.simps)

lemma email_shaped_matches: "email_shaped s \<Longrightarrow> matches_email_pattern s"
  unfolding matches_email_pattern_def by (metis append_Nil append_Nil2)

section \<open>The create handler, branch by branch\<close>

lemma falsy_iff: "falsy v \<longleftrightarrow> \<not> (\<exists>s. v = Some s \<and> s \<noteq> [])"
  unfolding falsy_def by (cases v) auto

lemma all_present_iff:
  "all_present req \<longleftrightarrow>
     \<not> (falsy (req ''referrerName'') \<or> falsy (req ''referrerEmail'') \<or>
        falsy (req ''referrerPhone'') \<or> falsy (req ''refereeName'') \<or>
        falsy (req ''refereeEmail'') \<or> falsy (req ''refereePhone'') \<or> falsy (req ''course''))"
  unfolding all_present_def create_fields_def falsy_iff by simp

lemma post_missing:
  "\<not> all_present req \<Longrightarrow>
     post_api_referrals be req d = ((400, ErrorBody ''All fields are required''), d)"
  unfolding all_present_iff post_api_referrals_def Let_def by simp

lemma post_bad_email:
  assumes "all_present req"
      and "\<not> (matches_email_pattern (to_string (req ''referrerEmail'')) \<and>
             matches_email_pattern (to_string (req ''refereeEmail'')))"
  shows "post_api_referrals be req d = ((400, ErrorBody ''Invalid email format''), d)"
proof -
  from assms(1) have a: "(falsy (req ''referrerName'') \<or> falsy (req ''referrerEmail'') \<or>
        falsy (req ''referrerPhone'') \<or> falsy (req ''refereeName'') \<or>
        falsy (req ''refereeEmail'') \<or> falsy (req ''refereePhone'') \<or> falsy (req ''course'')) = False"
    unfolding all_present_iff by simp
  from assms(2) have b: "(\<not> test_search emailRegex (to_string (req ''referrerEmail'')) \<or>
              \<not> test_search emailRegex (to_string (req ''refereeEmail''))) = True"
    unfolding emailRegex_test_iff by simp
  show ?thesis unfolding post_api_referrals_def Let_def a b by (simp only: if_True if_False)
qed

lemma post_bad_phone:
  assumes "all_present req"
      and "matches_email_pattern (to_string (req ''referrerEmail''))"
      and "matches_email_pattern (to_string (req ''refereeEmail''))"
      and "\<not> (ten_digits (to_string (req ''referrerPhone'')) \<and>
             ten_digits (to_string (req ''refereePhone'')))"
  shows "post_api_referrals be req d = ((400, ErrorBody ''Phone number must be 10 digits''), d)"
proof -
  from assms(1) have a: "(falsy (req ''referrerName'') \<or> falsy (req ''referrerEmail'') \<or>
        falsy (req ''referrerPhone'') \<or> falsy (req ''refereeName'') \<or>
        falsy (req ''refereeEmail'') \<or> falsy (req ''refereePhone'') \<or> falsy (req ''course'')) = False"
    unfolding all_present_iff by simp
  from assms(2,3) have b: "(\<not> test_search emailRegex (to_string (req ''referrerEmail'')) \<or>
              \<not> test_search emailRegex (to_string (req ''refereeEmail''))) = False"
    unfolding emailRegex_test_iff by simp
  from assms(4) have c: "(\<not> test_whole phoneRegex (to_string (req ''referrerPhone'')) \<or>
              \<not> test_whole phoneRegex (to_string (req ''refereePhone''))) = True"
    unfolding phoneRegex_test_iff by simp
  show ?thesis unfolding post_api_referrals_def Let_def a b c by (simp only: if_True if_False)
qed

text \<open>The INSERT as the handler issues it once the three checks have passed.\<close>

lemma post_valid:
  assumes "all_present req"
      and "matches_email_pattern (to_string (req ''referrerEmail''))"
      and "matches_email_pattern (to_string (req ''refereeEmail''))"
      and "ten_digits (to_string (req ''referrerPhone''))"
      and "ten_digits (to_string (req ''refereePhone''))"
  shows "post_api_referrals be req d =
     (case db_query be
                (InsertReferral (to_string (req ''referrerName'')) (to_string (req ''referrerEmail''))
                   (to_string (req ''referrerPhone'')) (to_string (req ''refereeName''))
                   (to_string (req ''refereeEmail'')) (to_string (req ''refereePhone''))
                   (to_string (req ''course''))) d of
           (Inr (Inserted insertId), d') \<Rightarrow>
             ((201, CreatedBody insertId ''Referral created successfully''), d')
         | (_, d') \<Rightarrow> ((500, ErrorBody ''Failed to create referral''), d'))"
proof -
  from assms(1) have a: "(falsy (req ''referrerName'') \<or> falsy (req ''referrerEmail'') \<or>
        falsy (req ''referrerPhone'') \<or> falsy (req ''refereeName'') \<or>
        falsy (req ''refereeEmail'') \<or> falsy (req ''refereePhone'') \<or> falsy (req ''course'')) = False"
    unfolding all_present_iff by simp
  from assms(2,3) have b: "(\<not> test_search emailRegex (to_string (req ''referrerEmail'')) \<or>
              \<not> test_search emailRegex (to_string (req ''refereeEmail''))) = False"
    unfolding emailRegex_test_iff by simp
  from assms(4,5) have c: "(\<not> test_whole phoneRegex (to_string (req ''referrerPhone'')) \<or>
              \<not> test_whole phoneRegex (to_string (req ''refereePhone''))) = False"
    unfolding phoneRegex_test_iff by simp
  show ?thesis unfolding post_api_referrals_def Let_def a b c by (simp only: if_True if_False)
qed

lemma db_query_insert:
  "db_query be (InsertReferral rn re rp en ee ep c) d =
     (if fault be \<or>
         (strict_mode be \<and>
           (too_long 100 rn \<or> too_long 100 re \<or> too_long 20 rp \<or> too_long 100 en \<or>
            too_long 100 ee \<or> too_long 20 ep \<or> too_long 100 c)) \<or>
         auto_increment d > INT_MAX
      then (Inl StorageError, d\<lparr>issued := issued d @ [InsertReferral rn re rp en ee ep c]\<rparr>)
      else (Inr (Inserted (auto_increment d)),
            d\<lparr>rows := rows d @
                   [\<lparr>id_col = auto_increment d,
                     referrer_name = take 100 rn, referrer_email = take 100 re,
                     referrer_phone = take 20 rp, referee_name = take 100 en,
                     referee_email = take 100 ee, referee_phone = take 20 ep,
                     course = take 100 c, status = ''pending'',
                     created_at = now be, updated_at = now be\<rparr>],
               auto_increment := Suc (auto_increment d),
               issued := issued d @ [InsertReferral rn re rp en ee ep c]\<rparr>))"
  unfolding db_query_def insert_referral_def varchar_def Let_def by auto

lemma post_code:
  assumes "all_present req"
      and "matches_email_pattern (to_string (req ''referrerEmail''))"
      and "matches_email_pattern (to_string (req ''refereeEmail''))"
      and "ten_digits (to_string (req ''referrerPhone''))"
      and "ten_digits (to_string (req ''refereePhone''))"
  shows "fst (fst (post_api_referrals be req d)) \<in> {201, 500}"
  unfolding post_valid[OF assms] db_query_insert by simp

section \<open>Example values, checked\<close>

lemma example_request_present: "all_present example_request"
  unfolding all_present_def create_fields_def example_request_def by simp

lemma example_emails_match:
  "matches_email_pattern ''ann@x.org''" "matches_email_pattern ''bob@y.org''"
  unfolding emailRegex_test_iff[symmetric] emailRegex_def by (simp_all add: white_space_def)

lemma example_phones_ten_digits:
  "ten_digits ''0123456789''" "ten_digits ''9876543210''"
  unfolding ten_digits_def decimal_digit_def by simp_all

section \<open>Validation of a create request\<close>

text \<open>
  Claim C2. The create handler checks, in this order, that the seven fields are present
  and not empty, that both emails match the email pattern, and that both phones are ten
  decimal digits. The first check that fails decides the answer: status 400 with the
  message \<^verbatim>\<open>All fields are required\<close>, \<^verbatim>\<open>Invalid email format\<close> or
  \<^verbatim>\<open>Phone number must be 10 digits\<close>, and the database is returned as it was: no row
  is added and no statement is issued. An input that passes the three checks is not
  answered with 400.
\<close>

theorem create_validation_order:
  "(\<not> all_present req \<longrightarrow>
      post_api_referrals be req d = ((400, ErrorBody ''All fields are required''), d)) \<and>
   (all_present req \<and>
    \<not> (matches_email_pattern (to_string (req ''referrerEmail'')) \<and>
       matches_email_pattern (to_string (req ''refereeEmail''))) \<longrightarrow>
      post_api_referrals be req d = ((400, ErrorBody ''Invalid email format''), d)) \<and>
   (all_present req \<and>
    matches_email_pattern (to_string (req ''referrerEmail'')) \<and>
    matches_email_pattern (to_string (req ''refereeEmail'')) \<and>
    \<not> (ten_digits (to_string (req ''referrerPhone'')) \<and>
       ten_digits (to_string (req ''refereePhone''))) \<longrightarrow>
      post_api_referrals be req d = ((400, ErrorBody ''Phone number must be 10 digits''), d)) \<and>
   (all_present req \<and>
    matches_email_pattern (to_string (req ''referrerEmail'')) \<and>
    matches_email_pattern (to_string (req ''refereeEmail'')) \<and>
    ten_digits (to_string (req ''referrerPhone'')) \<and>
    ten_digits (to_string (req ''refereePhone'')) \<longrightarrow>
      fst (fst (post_api_referrals be req d)) \<in> {201, 500})"
  using post_missing post_bad_email post_bad_phone post_code by blast

theorem create_validation_order_witness:
  "\<not> all_present (example_request(''course'' := None)) \<and>
   post_api_referrals example_backend (example_request(''course'' := None)) example_db =
     ((400, ErrorBody ''All fields are required''), example_db) \<and>
   all_present (example_request(''refereeEmail'' \<mapsto> ''bob.y.org'')) \<and>
   \<not> matches_email_pattern ''bob.y.org'' \<and>
   post_api_referrals example_backend (example_request(''refereeEmail'' \<mapsto> ''bob.y.org''))
       example_db =
     ((400, ErrorBody ''Invalid email format''), example_db) \<and>
   all_present (example_request(''referrerPhone'' \<mapsto> ''12345'')) \<and>
   \<not> ten_digits ''12345'' \<and>
   post_api_referrals example_backend (example_request(''referrerPhone'' \<mapsto> ''12345''))
       example_db =
     ((400, ErrorBody ''Phone number must be 10 digits''), example_db)"
proof -
  have 1: "\<not> all_present (example_request(''course'' := None))"
    unfolding all_present_def create_fields_def by simp
  have 2: "all_present (example_request(''refereeEmail'' \<mapsto> ''bob.y.org''))"
    unfolding all_present_def create_fields_def example_request_def by simp
  have 3: "\<not> matches_email_pattern ''bob.y.org''"
    unfolding emailRegex_test_iff[symmetric] emailRegex_def by (simp add: white_space_def)
  have 4: "all_present (example_request(''referrerPhone'' \<mapsto> ''12345''))"
    unfolding all_present_def create_fields_def example_request_def by simp
  have 5: "\<not> ten_digits ''12345''"
    unfolding ten_digits_def by simp
  have 6: "to_string ((example_request(''refereeEmail'' \<mapsto> ''bob.y.org'')) ''refereeEmail'') = ''bob.y.org''"
    unfolding to_string_def by simp
  have 7: "to_string ((example_request(''referrerPhone'' \<mapsto> ''12345'')) ''referrerPhone'') = ''12345''"
       "to_string ((example_request(''referrerPhone'' \<mapsto> ''12345'')) ''referrerEmail'') = ''ann@x.org''"
       "to_string ((example_request(''referrerPhone'' \<mapsto> ''12345'')) ''refereeEmail'') = ''bob@y.org''"
    unfolding to_string_def example_request_def by simp_all
  show ?thesis
    using create_validation_order[of "example_request(''course'' := None)" example_backend example_db]
      create_validation_order[of "example_request(''refereeEmail'' \<mapsto> ''bob.y.org'')" example_backend example_db]
      create_validation_order[of "example_request(''referrerPhone'' \<mapsto> ''12345'')" example_backend example_db]
      1 2 3 4 5 example_emails_match
    unfolding 6 7 by simp
qed

section \<open>The status update handler\<close>

lemma db_query_update:
  "db_query be (UpdateStatus st i) d =
     (if fault be then (Inl StorageError, d\<lparr>issued := issued d @ [UpdateStatus st i]\<rparr>)
      else (Inr (Updated (length (filter (\<lambda>r. id_col r = i) (rows d)))),
            d\<lparr>rows := map (update_row be st i) (rows d),
              issued := issued d @ [UpdateStatus st i]\<rparr>))"
  unfolding db_query_def update_status_def Let_def by simp

lemma status_enum_not_empty: "st \<in> set status_enum \<Longrightarrow> st \<noteq> []"
  unfolding status_enum_def by auto

lemma patch_invalid:
  assumes "\<forall>s \<in> set status_enum. req ''status'' \<noteq> Some s"
  shows "patch_api_referrals be i req d = ((400, ErrorBody ''Valid status is required''), d)"
proof (cases "req ''status''")
  case None
  then show ?thesis unfolding patch_api_referrals_def Let_def falsy_def by simp
next
  case (Some s)
  with assms have "s \<notin> set status_enum" by auto
  with Some show ?thesis unfolding patch_api_referrals_def Let_def to_string_def by simp
qed

lemma patch_valid:
  assumes "req ''status'' = Some st" and "st \<in> set status_enum"
  shows "patch_api_referrals be i req d =
     (if fault be
      then ((500, ErrorBody ''Failed to update referral status''),
            d\<lparr>issued := issued d @ [UpdateStatus st i]\<rparr>)
      else (if length (filter (\<lambda>r. id_col r = i) (rows d)) = 0
            then (404, ErrorBody ''Referral not found'')
            else (200, MessageBody ''Referral status updated successfully''),
            d\<lparr>rows := map (update_row be st i) (rows d),
              issued := issued d @ [UpdateStatus st i]\<rparr>))"
proof -
  from assms have "\<not> falsy (req ''status'')" "to_string (req ''status'') = st"
    unfolding falsy_def to_string_def using status_enum_not_empty by auto
  with assms(2) show ?thesis
    unfolding patch_api_referrals_def Let_def db_query_update by simp
qed

lemma matching_rows_primary_key:
  assumes "distinct (map id_col rs)"
  shows "length (filter (\<lambda>r. id_col r = i) rs) = (if i \<in> id_col ` set rs then 1 else 0)"
  using assms by (induction rs) (auto simp: image_iff)

lemma update_row_status_set:
  "update_row be st i r = (if id_col r = i then status_set be st r else r)"
  unfolding update_row_def status_set_def by simp

lemma patch_200:
  assumes "fst (fst (patch_api_referrals be i req d)) = 200"
  shows "\<exists>st. req ''status'' = Some st \<and> st \<in> set status_enum \<and> \<not> fault be \<and>
           length (filter (\<lambda>r. id_col r = i) (rows d)) \<noteq> 0"
proof (cases "\<forall>s \<in> set status_enum. req ''status'' \<noteq> Some s")
  case True
  from patch_invalid[where req=req, OF True] assms show ?thesis by simp
next
  case False
  then obtain st where st: "req ''status'' = Some st" "st \<in> set status_enum" by auto
  from assms have "\<not> fault be \<and> length (filter (\<lambda>r. id_col r = i) (rows d)) \<noteq> 0"
    unfolding patch_valid[where req=req, OF st] by (auto split: if_splits)
  with st show ?thesis by blast
qed

lemma example_db_primary_key: "primary_key example_db"
  unfolding primary_key_def example_db_def by simp

text \<open>
  Claim C4. An update request whose \<^verbatim>\<open>status\<close> is missing or is not exactly one of
  \<^verbatim>\<open>pending\<close>, \<^verbatim>\<open>contacted\<close>, \<^verbatim>\<open>enrolled\<close>, \<^verbatim>\<open>completed\<close> is answered with
  status 400 and the message \<^verbatim>\<open>Valid status is required\<close>; the database is returned
  as it was, so no statement is issued and every stored status is unchanged.
\<close>

theorem update_rejects_unknown_status:
  assumes "\<forall>s \<in> set status_enum. req ''status'' \<noteq> Some s"
  shows "patch_api_referrals be i req d = ((400, ErrorBody ''Valid status is required''), d)"
  using assms patch_invalid[where req=req] by blast

theorem update_rejects_unknown_status_witness:
  "patch_api_referrals example_backend 1 [''status'' \<mapsto> ''cancelled''] example_db =
     ((400, ErrorBody ''Valid status is required''), example_db) \<and>
   patch_api_referrals example_backend 1 [''status'' \<mapsto> ''''] example_db =
     ((400, ErrorBody ''Valid status is required''), example_db) \<and>
   patch_api_referrals example_backend 1 [''status'' \<mapsto> ''Pending''] example_db =
     ((400, ErrorBody ''Valid status is required''), example_db) \<and>
   patch_api_referrals example_backend 1 Map.empty example_db =
     ((400, ErrorBody ''Valid status is required''), example_db) \<and>
   status (hd (rows example_db)) = ''pending''"
proof -
  have 1: "\<forall>s \<in> set status_enum. [''status'' \<mapsto> ''cancelled''] ''status'' \<noteq> Some s"
    unfolding status_enum_def by simp
  have 2: "\<forall>s \<in> set status_enum. [''status'' \<mapsto> ''''] ''status'' \<noteq> Some s"
    unfolding status_enum_def by simp
  have 3: "\<forall>s \<in> set status_enum. [''status'' \<mapsto> ''Pending''] ''status'' \<noteq> Some s"
    unfolding status_enum_def by simp
  have 4: "\<forall>s \<in> set status_enum. (Map.empty :: body) ''status'' \<noteq> Some s"
    by simp
  have 5: "status (hd (rows example_db)) = ''pending''"
    unfolding example_db_def example_row_def by simp
  show ?thesis
    using update_rejects_unknown_status[where req="[''status'' \<mapsto> ''cancelled'']", OF 1, of example_backend 1 example_db]
      update_rejects_unknown_status[where req="[''status'' \<mapsto> '''']", OF 2, of example_backend 1 example_db]
      update_rejects_unknown_status[where req="[''status'' \<mapsto> ''Pending'']", OF 3, of example_backend 1 example_db]
      update_rejects_unknown_status[where req="Map.empty", OF 4, of example_backend 1 example_db] 5
    by simp
qed

text \<open>
  Claim C5, as stated, fails: an update of an existing row to the status it already
  has reports 1 affected row and is answered with 200, and yet no row was updated: the
  table is as before.
\<close>

theorem update_same_status_counts_one:
  "map status (rows three_rows_db) = [''pending'', ''pending'', ''pending''] \<and>
   db_query later_backend (UpdateStatus ''pending'' 3) three_rows_db =
     (Inr (Updated 1), three_rows_db\<lparr>issued := [UpdateStatus ''pending'' 3]\<rparr>) \<and>
   fst (patch_api_referrals later_backend 3 [''status'' \<mapsto> ''pending''] three_rows_db) =
     (200, MessageBody ''Referral status updated successfully'') \<and>
   rows (snd (patch_api_referrals later_backend 3 [''status'' \<mapsto> ''pending'']
       three_rows_db)) = rows three_rows_db"
proof -
  have a: "''pending'' \<in> set status_enum" unfolding status_enum_def by simp
  have c: "[''status'' \<mapsto> ''pending''] ''status'' = Some ''pending''" by simp
  have 1: "map status (rows three_rows_db) = [''pending'', ''pending'', ''pending'']"
    unfolding three_rows_db_def third_row_def second_row_def example_row_def by simp
  have 2: "db_query later_backend (UpdateStatus ''pending'' 3) three_rows_db =
     (Inr (Updated 1), three_rows_db\<lparr>issued := [UpdateStatus ''pending'' 3]\<rparr>)"
    unfolding db_query_update
    by (simp add: later_backend_def three_rows_db_def third_row_def second_row_def
        example_row_def update_row_def)
  have 3: "fst (patch_api_referrals later_backend 3 [''status'' \<mapsto> ''pending''] three_rows_db) =
     (200, MessageBody ''Referral status updated successfully'')"
       "rows (snd (patch_api_referrals later_backend 3 [''status'' \<mapsto> ''pending'']
       three_rows_db)) = rows three_rows_db"
    unfolding patch_valid[where req="[''status'' \<mapsto> ''pending'']", OF c a]
    by (simp_all add: later_backend_def three_rows_db_def third_row_def second_row_def
        example_row_def update_row_def)
  from 1 2 3 show ?thesis by simp
qed

text \<open>
  Claim C5, amended. For an update request with a valid status, on a table whose ids
  are distinct and with a database that executes the statement, the UPDATE reports 0
  affected rows exactly when no row has the given id; the answer is then 404 with
  \<^verbatim>\<open>Referral not found\<close> and the rows are as before. It reports 1 exactly when a row
  has that id; the answer is then 200 with the success message. Afterwards every row
  with that id has the given status (it is rewritten when its status was another one,
  and left as it is otherwise), every other row is unchanged, and no row is added or
  removed. So an update of an existing id with a valid status succeeds.
\<close>

theorem update_found_or_not:
  assumes "req ''status'' = Some st" and "st \<in> set status_enum"
      and "\<not> fault be" and "primary_key d"
  shows "(fst (update_status be st i d) = 0 \<longleftrightarrow> i \<notin> id_col ` set (rows d)) \<and>
         (fst (update_status be st i d) = 1 \<longleftrightarrow> i \<in> id_col ` set (rows d)) \<and>
         db_query be (UpdateStatus st i) d =
           (Inr (Updated (fst (update_status be st i d))),
            (snd (update_status be st i d))\<lparr>issued := issued d @ [UpdateStatus st i]\<rparr>) \<and>
         fst (patch_api_referrals be i req d) =
           (if fst (update_status be st i d) = 0
            then (404, ErrorBody ''Referral not found'')
            else (200, MessageBody ''Referral status updated successfully'')) \<and>
         rows (snd (patch_api_referrals be i req d)) =
           map (\<lambda>r. if id_col r = i then status_set be st r else r) (rows d) \<and>
         (\<forall>r \<in> set (rows (snd (patch_api_referrals be i req d))).
            id_col r = i \<longrightarrow> status r = st) \<and>
         (i \<notin> id_col ` set (rows d) \<longrightarrow>
            rows (snd (patch_api_referrals be i req d)) = rows d) \<and>
         auto_increment (snd (patch_api_referrals be i req d)) = auto_increment d"
proof -
  have n: "fst (update_status be st i d) = (if i \<in> id_col ` set (rows d) then 1 else 0)"
    using matching_rows_primary_key[of "rows d" i] assms(4)
    unfolding update_status_def primary_key_def by simp
  have q: "db_query be (UpdateStatus st i) d =
           (Inr (Updated (fst (update_status be st i d))),
            (snd (update_status be st i d))\<lparr>issued := issued d @ [UpdateStatus st i]\<rparr>)"
    unfolding db_query_update update_status_def using assms(3) by simp
  have p: "fst (patch_api_referrals be i req d) =
           (if fst (update_status be st i d) = 0
            then (404, ErrorBody ''Referral not found'')
            else (200, MessageBody ''Referral status updated successfully''))"
    unfolding patch_valid[where req=req, OF assms(1,2)] update_status_def using assms(3) by simp
  have r: "rows (snd (patch_api_referrals be i req d)) =
           map (\<lambda>r. if id_col r = i then status_set be st r else r) (rows d)"
    unfolding patch_valid[where req=req, OF assms(1,2)] using assms(3)
    by (simp add: update_row_status_set)
  have s: "\<forall>r \<in> set (rows (snd (patch_api_referrals be i req d))).
            id_col r = i \<longrightarrow> status r = st"
  proof (intro ballI impI)
    fix x
    assume m: "x \<in> set (rows (snd (patch_api_referrals be i req d)))" and x: "id_col x = i"
    from m have "x \<in> (\<lambda>r. if id_col r = i then status_set be st r else r) ` set (rows d)"
      unfolding r by simp
    then obtain y where y: "x = (if id_col y = i then status_set be st y else y)"
      by (rule imageE)
    show "status x = st"
    proof (cases "id_col y = i")
      case True
      with y show ?thesis by (simp add: status_set_def)
    next
      case False
      with y x show ?thesis by simp
    qed
  qed
  have u: "i \<notin> id_col ` set (rows d) \<longrightarrow>
            rows (snd (patch_api_referrals be i req d)) = rows d"
  proof
    assume "i \<notin> id_col ` set (rows d)"
    then have "\<forall>x \<in> set (rows d). (if id_col x = i then status_set be st x else x) = x"
      by auto
    then show "rows (snd (patch_api_referrals be i req d)) = rows d"
      unfolding r by (simp add: map_idI)
  qed
  have c: "auto_increment (snd (patch_api_referrals be i req d)) = auto_increment d"
    unfolding patch_valid[where req=req, OF assms(1,2)] using assms(3) by simp
  from n have n0: "fst (update_status be st i d) = 0 \<longleftrightarrow> i \<notin> id_col ` set (rows d)"
    and n1: "fst (update_status be st i d) = 1 \<longleftrightarrow> i \<in> id_col ` set (rows d)"
    by simp_all
  from n0 n1 q p r s u c show ?thesis by - (intro conjI; assumption)
qed

theorem update_found_or_not_witness:
  "''enrolled'' \<in> set status_enum \<and> \<not> fault later_backend \<and> primary_key example_db \<and>
   fst (update_status later_backend ''enrolled'' 999999 example_db) = 0 \<and>
   fst (patch_api_referrals later_backend 999999 [''status'' \<mapsto> ''enrolled''] example_db) =
     (404, ErrorBody ''Referral not found'') \<and>
   rows (snd (patch_api_referrals later_backend 999999 [''status'' \<mapsto> ''enrolled'']
       example_db)) = [example_row] \<and>
   fst (update_status later_backend ''enrolled'' 1 example_db) = 1 \<and>
   fst (patch_api_referrals later_backend 1 [''status'' \<mapsto> ''enrolled''] example_db) =
     (200, MessageBody ''Referral status updated successfully'') \<and>
   rows (snd (patch_api_referrals later_backend 1 [''status'' \<mapsto> ''enrolled''] example_db)) =
     [example_row\<lparr>status := ''enrolled'', updated_at := 2000\<rparr>]"
proof -
  have a: "''enrolled'' \<in> set status_enum" unfolding status_enum_def by simp
  have b: "\<not> fault later_backend" unfolding later_backend_def by simp
  have c: "[''status'' \<mapsto> ''enrolled''] ''status'' = Some ''enrolled''" by simp
  have d: "id_col ` set (rows example_db) = {1}" "rows example_db = [example_row]"
      "id_col example_row = 1"
    unfolding example_db_def example_row_def by simp_all
  have s: "status_set later_backend ''enrolled'' example_row =
             example_row\<lparr>status := ''enrolled'', updated_at := 2000\<rparr>"
    unfolding status_set_def later_backend_def example_row_def by simp
  note T0 = update_found_or_not[where req="[''status'' \<mapsto> ''enrolled'']" and i=999999,
        OF c a b example_db_primary_key]
  note T1 = update_found_or_not[where req="[''status'' \<mapsto> ''enrolled'']" and i=1,
        OF c a b example_db_primary_key]
  have i0: "999999 \<notin> id_col ` set (rows example_db)" unfolding d(1) by simp
  have i1: "1 \<in> id_col ` set (rows example_db)" unfolding d(1) by simp
  have z0: "fst (update_status later_backend ''enrolled'' 999999 example_db) = 0"
    using T0 i0 by blast
  have "fst (patch_api_referrals later_backend 999999 [''status'' \<mapsto> ''enrolled''] example_db) =
         (if fst (update_status later_backend ''enrolled'' 999999 example_db) = 0
          then (404, ErrorBody ''Referral not found'')
          else (200, MessageBody ''Referral status updated successfully''))"
    using T0 by blast
  then have p0: "fst (patch_api_referrals later_backend 999999 [''status'' \<mapsto> ''enrolled'']
         example_db) = (404, ErrorBody ''Referral not found'')"
    unfolding z0 by simp
  have "rows (snd (patch_api_referrals later_backend 999999 [''status'' \<mapsto> ''enrolled'']
         example_db)) = rows example_db"
    using T0 i0 by blast
  then have r0: "rows (snd (patch_api_referrals later_backend 999999 [''status'' \<mapsto> ''enrolled'']
         example_db)) = [example_row]"
    unfolding d(2) .
  have z1: "fst (update_status later_backend ''enrolled'' 1 example_db) = 1"
    using T1 i1 by blast
  have "fst (patch_api_referrals later_backend 1 [''status'' \<mapsto> ''enrolled''] example_db) =
         (if fst (update_status later_backend ''enrolled'' 1 example_db) = 0
          then (404, ErrorBody ''Referral not found'')
          else (200, MessageBody ''Referral status updated successfully''))"
    using T1 by blast
  then have p1: "fst (patch_api_referrals later_backend 1 [''status'' \<mapsto> ''enrolled'']
         example_db) = (200, MessageBody ''Referral status updated successfully'')"
    unfolding z1 by simp
  have "rows (snd (patch_api_referrals later_backend 1 [''status'' \<mapsto> ''enrolled''] example_db)) =
         map (\<lambda>r. if id_col r = 1 then status_set later_backend ''enrolled'' r else r)
           (rows example_db)"
    using T1 by blast
  then have r1: "rows (snd (patch_api_referrals later_backend 1 [''status'' \<mapsto> ''enrolled'']
         example_db)) = [example_row\<lparr>status := ''enrolled'', updated_at := 2000\<rparr>]"
    unfolding d(2) by (simp add: d(3) s)
  from z0 p0 r0 z1 p1 r1 a b example_db_primary_key show ?thesis by blast
qed

text \<open>
  Claim C9, as stated, fails: a successful update to the status that the row already
  has leaves \<^verbatim>\<open>updated_at\<close> as it was, here 1000 although the update happens at time
  2000.
\<close>

theorem update_same_status_keeps_updated_at:
  "fst (patch_api_referrals later_backend 1 [''status'' \<mapsto> ''pending''] example_db) =
     (200, MessageBody ''Referral status updated successfully'') \<and>
   now later_backend = 2000 \<and>
   map updated_at (rows example_db) = [1000] \<and>
   map updated_at (rows (snd (patch_api_referrals later_backend 1 [''status'' \<mapsto> ''pending'']
       example_db))) = [1000]"
proof -
  have a: "''pending'' \<in> set status_enum" unfolding status_enum_def by simp
  have c: "[''status'' \<mapsto> ''pending''] ''status'' = Some ''pending''" by simp
  show ?thesis
    unfolding patch_valid[where req="[''status'' \<mapsto> ''pending'']", OF c a]
    by (simp add: later_backend_def example_db_def example_row_def update_row_def)
qed


text \<open>
  Claim C9, amended. A successful status update (answer 200) sets the status of the
  rows whose id matches, of which a table with distinct ids has exactly one; it sets
  \<^verbatim>\<open>updated_at\<close> of such a row to the current time when the status value changes and
  leaves it when the new status is the one stored; every other field of that row, every
  other row, the number and order of the rows and the id counter are unchanged.
\<close>

theorem update_status_frame:
  assumes "fst (fst (patch_api_referrals be i req d)) = 200"
  shows "\<exists>st. req ''status'' = Some st \<and> st \<in> set status_enum \<and>
           rows (snd (patch_api_referrals be i req d)) =
             map (\<lambda>r. if id_col r = i then status_set be st r else r) (rows d) \<and>
           auto_increment (snd (patch_api_referrals be i req d)) = auto_increment d \<and>
           (primary_key d \<longrightarrow> length (filter (\<lambda>r. id_col r = i) (rows d)) = 1)"
proof -
  from patch_200[OF assms] obtain st where st: "req ''status'' = Some st" "st \<in> set status_enum"
    and nf: "\<not> fault be" and n: "length (filter (\<lambda>r. id_col r = i) (rows d)) \<noteq> 0"
    by blast
  have "rows (snd (patch_api_referrals be i req d)) =
             map (\<lambda>r. if id_col r = i then status_set be st r else r) (rows d)"
    unfolding patch_valid[where req=req, OF st] using nf by (simp add: update_row_status_set)
  moreover have "auto_increment (snd (patch_api_referrals be i req d)) = auto_increment d"
    unfolding patch_valid[where req=req, OF st] using nf by simp
  moreover have "primary_key d \<longrightarrow> length (filter (\<lambda>r. id_col r = i) (rows d)) = 1"
    using n matching_rows_primary_key[of "rows d" i] unfolding primary_key_def
    by (auto split: if_splits)
  ultimately show ?thesis using st by blast
qed

theorem update_status_frame_witness:
  "fst (fst (patch_api_referrals later_backend 1 [''status'' \<mapsto> ''contacted''] example_db)) = 200 \<and>
   rows (snd (patch_api_referrals later_backend 1 [''status'' \<mapsto> ''contacted''] example_db)) =
     [example_row\<lparr>status := ''contacted'', updated_at := 2000\<rparr>] \<and>
   auto_increment (snd (patch_api_referrals later_backend 1 [''status'' \<mapsto> ''contacted''] example_db)) = 2 \<and>
   primary_key example_db"
proof -
  have a: "''contacted'' \<in> set status_enum" unfolding status_enum_def by simp
  have c: "[''status'' \<mapsto> ''contacted''] ''status'' = Some ''contacted''" by simp
  have ok: "fst (fst (patch_api_referrals later_backend 1 [''status'' \<mapsto> ''contacted''] example_db)) = 200"
    unfolding patch_valid[where req="[''status'' \<mapsto> ''contacted'']", OF c a]
    by (simp add: later_backend_def example_db_def example_row_def)
  have s: "status_set later_backend ''contacted'' example_row =
             example_row\<lparr>status := ''contacted'', updated_at := 2000\<rparr>"
    unfolding status_set_def later_backend_def example_row_def by simp
  have r: "rows example_db = [example_row]" "auto_increment example_db = 2" "id_col example_row = 1"
    unfolding example_db_def example_row_def by simp_all
  show ?thesis
    using update_status_frame[OF ok] ok example_db_primary_key s
    unfolding r by (auto simp: r)
qed

section \<open>A create request that passes validation\<close>

lemma all_present_fields:
  assumes "all_present req"
  shows "req ''referrerName'' = Some (to_string (req ''referrerName''))"
    and "req ''referrerEmail'' = Some (to_string (req ''referrerEmail''))"
    and "req ''referrerPhone'' = Some (to_string (req ''referrerPhone''))"
    and "req ''refereeName'' = Some (to_string (req ''refereeName''))"
    and "req ''refereeEmail'' = Some (to_string (req ''refereeEmail''))"
    and "req ''refereePhone'' = Some (to_string (req ''refereePhone''))"
    and "req ''course'' = Some (to_string (req ''course''))"
  using assms unfolding all_present_def create_fields_def to_string_def by auto

lemma ten_digits_fits: "ten_digits s \<Longrightarrow> \<not> too_long 20 s \<and> take 20 s = s"
  unfolding ten_digits_def too_long_def by simp

text \<open>The answer to a create request that passed validation, by what the INSERT does.\<close>

lemma post_insert:
  assumes "all_present req"
      and "matches_email_pattern (to_string (req ''referrerEmail''))"
      and "matches_email_pattern (to_string (req ''refereeEmail''))"
      and "ten_digits (to_string (req ''referrerPhone''))"
      and "ten_digits (to_string (req ''refereePhone''))"
  shows "post_api_referrals be req d =
     (let rn = to_string (req ''referrerName''); re = to_string (req ''referrerEmail'');
          rp = to_string (req ''referrerPhone''); en = to_string (req ''refereeName'');
          ee = to_string (req ''refereeEmail''); ep = to_string (req ''refereePhone'');
          c = to_string (req ''course'');
          q = InsertReferral rn re rp en ee ep c
      in if fault be \<or>
            (strict_mode be \<and>
              (too_long 100 rn \<or> too_long 100 re \<or> too_long 100 en \<or> too_long 100 ee \<or>
               too_long 100 c)) \<or>
            auto_increment d > INT_MAX
         then ((500, ErrorBody ''Failed to create referral''), d\<lparr>issued := issued d @ [q]\<rparr>)
         else ((201, CreatedBody (auto_increment d) ''Referral created successfully''),
               d\<lparr>rows := rows d @ [new_row be d rn re rp en ee ep c],
                 auto_increment := Suc (auto_increment d),
                 issued := issued d @ [q]\<rparr>))"
  unfolding post_valid[OF assms] db_query_insert new_row_def Let_def
  using ten_digits_fits[OF assms(4)] ten_digits_fits[OF assms(5)] by auto

lemma post_accepted:
  assumes "all_present req"
      and "matches_email_pattern (to_string (req ''referrerEmail''))"
      and "matches_email_pattern (to_string (req ''refereeEmail''))"
      and "ten_digits (to_string (req ''referrerPhone''))"
      and "ten_digits (to_string (req ''refereePhone''))"
  shows "post_api_referrals be req d =
     (if table_takes be d req
      then ((201, CreatedBody (auto_increment d) ''Referral created successfully''),
            d\<lparr>rows := rows d @ [request_row be d req],
              auto_increment := Suc (auto_increment d),
              issued := issued d @ [request_insert req]\<rparr>)
      else ((500, ErrorBody ''Failed to create referral''),
            d\<lparr>issued := issued d @ [request_insert req]\<rparr>))"
  unfolding post_insert[OF assms] table_takes_def request_row_def request_insert_def Let_def
  by auto

lemma post_201:
  assumes "fst (fst (post_api_referrals be req d)) = 201"
  shows "all_present req \<and>
         matches_email_pattern (to_string (req ''referrerEmail'')) \<and>
         matches_email_pattern (to_string (req ''refereeEmail'')) \<and>
         ten_digits (to_string (req ''referrerPhone'')) \<and>
         ten_digits (to_string (req ''refereePhone'')) \<and> table_takes be d req"
proof -
  have 1: "all_present req"
  proof (rule ccontr)
    assume "\<not> all_present req"
    from post_missing[OF this, of be d] assms show False by simp
  qed
  have 2: "matches_email_pattern (to_string (req ''referrerEmail'')) \<and>
         matches_email_pattern (to_string (req ''refereeEmail''))"
  proof (rule ccontr)
    assume "\<not> (matches_email_pattern (to_string (req ''referrerEmail'')) \<and>
         matches_email_pattern (to_string (req ''refereeEmail'')))"
    from post_bad_email[OF 1 this, of be d] assms show False by simp
  qed
  have 3: "ten_digits (to_string (req ''referrerPhone'')) \<and>
         ten_digits (to_string (req ''refereePhone''))"
  proof (rule ccontr)
    assume "\<not> (ten_digits (to_string (req ''referrerPhone'')) \<and>
         ten_digits (to_string (req ''refereePhone'')))"
    from post_bad_phone[OF 1 _ _ this, of be d] 2 assms show False by simp
  qed
  have "table_takes be d req"
    using assms post_accepted[of req be d] 1 2 3 by (auto split: if_splits)
  with 1 2 3 show ?thesis by simp
qed

lemma get_all_ok:
  "\<not> fault be \<Longrightarrow>
     get_api_referrals be d =
       ((200, RowsBody (select_all be d)), d\<lparr>issued := issued d @ [SelectAll]\<rparr>)"
  unfolding get_api_referrals_def db_query_def select_all_def Let_def by simp

lemma set_select_all: "set (select_all be d) = set (rows d)"
  unfolding select_all_def order_by_created_at_desc_def by simp

lemma example_request_fields:
  "to_string (example_request ''referrerName'') = ''Ann''"
  "to_string (example_request ''referrerEmail'') = ''ann@x.org''"
  "to_string (example_request ''referrerPhone'') = ''0123456789''"
  "to_string (example_request ''refereeName'') = ''Bob''"
  "to_string (example_request ''refereeEmail'') = ''bob@y.org''"
  "to_string (example_request ''refereePhone'') = ''9876543210''"
  "to_string (example_request ''course'') = ''Data''"
  unfolding example_request_def to_string_def by simp_all

lemma example_table_takes: "table_takes example_backend example_db example_request"
  unfolding table_takes_def example_request_fields
  by (simp add: example_backend_def example_db_def INT_MAX_def too_long_def)

lemma example_request_row:
  "request_row example_backend example_db example_request =
     example_row\<lparr>id_col := 2\<rparr>"
  unfolding request_row_def new_row_def example_request_fields
  by (simp add: example_row_def example_db_def example_backend_def)

lemma long_name_request_fields:
  "to_string (long_name_request ''referrerName'') = long_name"
  "to_string (long_name_request ''referrerEmail'') = ''ann@x.org''"
  "to_string (long_name_request ''referrerPhone'') = ''0123456789''"
  "to_string (long_name_request ''refereeName'') = ''Bob''"
  "to_string (long_name_request ''refereeEmail'') = ''bob@y.org''"
  "to_string (long_name_request ''refereePhone'') = ''9876543210''"
  "to_string (long_name_request ''course'') = ''Data''"
  unfolding long_name_request_def example_request_def to_string_def by simp_all

text \<open>
  Claim C1, as stated, fails: a request whose seven fields are present, whose emails
  match and whose phones are ten digits, but whose referrer name has 101 letters, is
  answered with 500 by a server in strict mode, and no row is added.
\<close>

theorem create_long_name_rejected:
  "all_present long_name_request \<and>
   matches_email_pattern (to_string (long_name_request ''referrerEmail'')) \<and>
   matches_email_pattern (to_string (long_name_request ''refereeEmail'')) \<and>
   ten_digits (to_string (long_name_request ''referrerPhone'')) \<and>
   ten_digits (to_string (long_name_request ''refereePhone'')) \<and>
   \<not> fault example_backend \<and>
   post_api_referrals example_backend long_name_request example_db =
     ((500, ErrorBody ''Failed to create referral''),
      example_db\<lparr>issued := [request_insert long_name_request]\<rparr>) \<and>
   rows (snd (post_api_referrals example_backend long_name_request example_db)) =
     rows example_db"
proof -
  have p: "all_present long_name_request"
    unfolding all_present_def create_fields_def long_name_request_def example_request_def
      long_name_def by simp
  have e: "matches_email_pattern (to_string (long_name_request ''referrerEmail''))"
       "matches_email_pattern (to_string (long_name_request ''refereeEmail''))"
       "ten_digits (to_string (long_name_request ''referrerPhone''))"
       "ten_digits (to_string (long_name_request ''refereePhone''))"
    unfolding long_name_request_fields
    using example_emails_match example_phones_ten_digits by simp_all
  have t: "\<not> table_takes example_backend example_db long_name_request"
    unfolding table_takes_def long_name_request_fields
    by (simp add: example_backend_def long_name_def too_long_def)
  have f: "\<not> fault example_backend" unfolding example_backend_def by simp
  have i: "issued example_db = []" unfolding example_db_def by simp
  show ?thesis
    using p e f unfolding post_accepted[OF p e] using t by (simp add: i)
qed


text \<open>
  Claim C1, amended. For every create input whose seven fields are present and not
  empty, whose two emails match the email pattern and whose two phones are ten decimal
  digits, and whose row the table takes (\<open>table_takes\<close>), the create handler issues one
  INSERT, which appends exactly one row with the id of the counter, status
  \<^verbatim>\<open>pending\<close> and both timestamps at the server time; it answers 201 with that id; the
  id is not in use when the counter lies above all ids; and a listing of all referrals
  right afterwards contains that row.
\<close>

theorem create_valid_input:
  assumes "all_present req"
      and "matches_email_pattern (to_string (req ''referrerEmail''))"
      and "matches_email_pattern (to_string (req ''refereeEmail''))"
      and "ten_digits (to_string (req ''referrerPhone''))"
      and "ten_digits (to_string (req ''refereePhone''))"
      and "table_takes be d req"
  shows "post_api_referrals be req d =
           ((201, CreatedBody (auto_increment d) ''Referral created successfully''),
            d\<lparr>rows := rows d @ [request_row be d req],
              auto_increment := Suc (auto_increment d),
              issued := issued d @ [request_insert req]\<rparr>) \<and>
         id_col (request_row be d req) = auto_increment d \<and>
         status (request_row be d req) = ''pending'' \<and>
         created_at (request_row be d req) = now be \<and>
         updated_at (request_row be d req) = now be \<and>
         (ids_below_counter d \<longrightarrow> auto_increment d \<notin> id_col ` set (rows d)) \<and>
         (\<not> fault be' \<longrightarrow>
            fst (get_api_referrals be' (snd (post_api_referrals be req d))) =
              (200, RowsBody (select_all be' (snd (post_api_referrals be req d)))) \<and>
            request_row be d req \<in> set (select_all be' (snd (post_api_referrals be req d))))"
proof -
  have p: "post_api_referrals be req d =
           ((201, CreatedBody (auto_increment d) ''Referral created successfully''),
            d\<lparr>rows := rows d @ [request_row be d req],
              auto_increment := Suc (auto_increment d),
              issued := issued d @ [request_insert req]\<rparr>)"
    unfolding post_accepted[OF assms(1-5)] using assms(6) by simp
  have r: "id_col (request_row be d req) = auto_increment d"
       "status (request_row be d req) = ''pending''"
       "created_at (request_row be d req) = now be"
       "updated_at (request_row be d req) = now be"
    unfolding request_row_def new_row_def by simp_all
  have f: "ids_below_counter d \<longrightarrow> auto_increment d \<notin> id_col ` set (rows d)"
    unfolding ids_below_counter_def by auto
  have g: "\<not> fault be' \<longrightarrow>
            fst (get_api_referrals be' (snd (post_api_referrals be req d))) =
              (200, RowsBody (select_all be' (snd (post_api_referrals be req d)))) \<and>
            request_row be d req \<in> set (select_all be' (snd (post_api_referrals be req d)))"
    unfolding set_select_all by (simp add: get_all_ok p)
  from p r f g show ?thesis by simp
qed

theorem create_valid_input_witness:
  "all_present example_request \<and>
   matches_email_pattern ''ann@x.org'' \<and> matches_email_pattern ''bob@y.org'' \<and>
   ten_digits ''0123456789'' \<and> ten_digits ''9876543210'' \<and>
   table_takes example_backend example_db example_request \<and>
   ids_below_counter example_db \<and> \<not> fault later_backend \<and>
   post_api_referrals example_backend example_request example_db =
     ((201, CreatedBody 2 ''Referral created successfully''),
      \<lparr>rows = [example_row, example_row\<lparr>id_col := 2\<rparr>], auto_increment = 3,
       issued = [request_insert example_request]\<rparr>) \<and>
   status (example_row\<lparr>id_col := 2\<rparr>) = ''pending'' \<and>
   2 \<notin> id_col ` set (rows example_db) \<and>
   fst (get_api_referrals later_backend
         (snd (post_api_referrals example_backend example_request example_db))) =
     (200, RowsBody [example_row, example_row\<lparr>id_col := 2\<rparr>])"
proof -
  have i: "ids_below_counter example_db"
    unfolding ids_below_counter_def example_db_def example_row_def by simp
  have f: "\<not> fault later_backend" unfolding later_backend_def by simp
  have e: "matches_email_pattern (to_string (example_request ''referrerEmail''))"
       "matches_email_pattern (to_string (example_request ''refereeEmail''))"
       "ten_digits (to_string (example_request ''referrerPhone''))"
       "ten_digits (to_string (example_request ''refereePhone''))"
    unfolding example_request_fields
    using example_emails_match example_phones_ten_digits by simp_all
  have d: "example_db\<lparr>rows := rows example_db @ [example_row\<lparr>id_col := 2\<rparr>],
              auto_increment := Suc (auto_increment example_db),
              issued := issued example_db @ [request_insert example_request]\<rparr> =
           \<lparr>rows = [example_row, example_row\<lparr>id_col := 2\<rparr>], auto_increment = 3,
             issued = [request_insert example_request]\<rparr>"
    unfolding example_db_def by simp
  have s: "select_all later_backend
             \<lparr>rows = [example_row, example_row\<lparr>id_col := 2\<rparr>], auto_increment = 3,
             issued = [request_insert example_request]\<rparr> =
           [example_row, example_row\<lparr>id_col := 2\<rparr>]"
    unfolding select_all_def order_by_created_at_desc_def example_row_def later_backend_def
    by simp
  note T = create_valid_input[OF example_request_present e example_table_takes,
      where be'=later_backend]
  have 1: "post_api_referrals example_backend example_request example_db =
     ((201, CreatedBody 2 ''Referral created successfully''),
      \<lparr>rows = [example_row, example_row\<lparr>id_col := 2\<rparr>], auto_increment = 3,
       issued = [request_insert example_request]\<rparr>)"
    using T unfolding example_request_row by (simp add: example_db_def)
  have 2: "fst (get_api_referrals later_backend
         (snd (post_api_referrals example_backend example_request example_db))) =
     (200, RowsBody [example_row, example_row\<lparr>id_col := 2\<rparr>])"
    using T f unfolding 1 snd_conv s by blast
  have 3: "status (example_row\<lparr>id_col := 2\<rparr>) = ''pending''"
    unfolding example_row_def by simp
  have 4: "2 \<notin> id_col ` set (rows example_db)"
    unfolding example_db_def example_row_def by simp
  from 1 2 3 4 example_request_present example_emails_match example_phones_ten_digits
    example_table_takes i f
  show ?thesis by simp
qed

lemma post_same_fields:
  assumes "\<forall>k \<in> set create_fields. req k = req' k"
  shows "post_api_referrals be req d = post_api_referrals be req' d"
proof -
  from assms have "req ''referrerName'' = req' ''referrerName''"
    "req ''referrerEmail'' = req' ''referrerEmail''"
    "req ''referrerPhone'' = req' ''referrerPhone''"
    "req ''refereeName'' = req' ''refereeName''"
    "req ''refereeEmail'' = req' ''refereeEmail''"
    "req ''refereePhone'' = req' ''refereePhone''"
    "req ''course'' = req' ''course''"
    unfolding create_fields_def by simp_all
  then show ?thesis unfolding post_api_referrals_def by (simp only:)
qed

lemma extra_fields_same:
  "\<forall>k \<in> set create_fields. extra_fields_request k = example_request k"
  unfolding create_fields_def extra_fields_request_def by simp

text \<open>
  Claim C3, as stated, fails: the empty string does not match the email pattern, and a
  create request whose referee email is empty, all else being valid, fails with
  \<^verbatim>\<open>All fields are required\<close>, not with \<^verbatim>\<open>Invalid email format\<close>.
\<close>

theorem empty_email_is_missing_field:
  "(example_request(''refereeEmail'' \<mapsto> '''')) ''refereeEmail'' = Some '''' \<and>
   \<not> matches_email_pattern '''' \<and>
   fst (post_api_referrals example_backend (example_request(''refereeEmail'' \<mapsto> ''''))
       example_db) = (400, ErrorBody ''All fields are required'')"
proof -
  have 1: "\<not> all_present (example_request(''refereeEmail'' \<mapsto> ''''))"
    unfolding all_present_def create_fields_def by simp
  have 2: "\<not> matches_email_pattern ''''"
    unfolding emailRegex_test_iff[symmetric] emailRegex_def by simp
  from post_missing[OF 1, of example_backend example_db] 2 show ?thesis by simp
qed


text \<open>
  Claim C3, amended. The create handler answers 400 \<^verbatim>\<open>Invalid email format\<close> exactly
  when the seven fields are present and not empty and the referrer email or the referee
  email does not match the pattern, that is, has no part made of some characters that
  are not white space, an at sign, more such characters, a full stop and more such
  characters. So when both emails match, the answer is never that error, whatever the
  other fields are; and when a field is missing or empty, the answer is
  \<^verbatim>\<open>All fields are required\<close>, whatever the emails are.
\<close>

theorem email_check_decides:
  "(fst (post_api_referrals be req d) = (400, ErrorBody ''Invalid email format'') \<longleftrightarrow>
     all_present req \<and>
     \<not> (matches_email_pattern (to_string (req ''referrerEmail'')) \<and>
        matches_email_pattern (to_string (req ''refereeEmail'')))) \<and>
   (\<not> all_present req \<longrightarrow>
      fst (post_api_referrals be req d) = (400, ErrorBody ''All fields are required''))"
proof (cases "all_present req")
  case False
  from post_missing[OF this, of be d] False show ?thesis by simp
next
  case p: True
  show ?thesis
  proof (cases "matches_email_pattern (to_string (req ''referrerEmail'')) \<and>
        matches_email_pattern (to_string (req ''refereeEmail''))")
    case False
    from post_bad_email[OF p this, of be d] p False show ?thesis by simp
  next
    case e: True
    show ?thesis
    proof (cases "ten_digits (to_string (req ''referrerPhone'')) \<and>
         ten_digits (to_string (req ''refereePhone''))")
      case False
      from post_bad_phone[OF p _ _ this, of be d] e p show ?thesis by simp
    next
      case True
      with post_code[OF p, of be d] e have "fst (fst (post_api_referrals be req d)) \<noteq> 400"
        by auto
      with e p show ?thesis by auto
    qed
  qed
qed

theorem email_check_decides_witness:
  "all_present (example_request(''refereeEmail'' \<mapsto> ''bob.y.org'')) \<and>
   \<not> matches_email_pattern ''bob.y.org'' \<and>
   fst (post_api_referrals example_backend (example_request(''refereeEmail'' \<mapsto> ''bob.y.org''))
       example_db) = (400, ErrorBody ''Invalid email format'') \<and>
   all_present example_request \<and>
   matches_email_pattern ''ann@x.org'' \<and> matches_email_pattern ''bob@y.org'' \<and>
   fst (post_api_referrals example_backend example_request example_db) \<noteq>
     (400, ErrorBody ''Invalid email format'') \<and>
   all_present (example_request(''refereeEmail'' \<mapsto> ''to bob@y.org now'')) \<and>
   matches_email_pattern ''to bob@y.org now'' \<and>
   fst (post_api_referrals example_backend
         (example_request(''refereeEmail'' \<mapsto> ''to bob@y.org now'')) example_db) \<noteq>
     (400, ErrorBody ''Invalid email format'') \<and>
   \<not> all_present (example_request(''course'' := None, ''refereeEmail'' \<mapsto> ''bob.y.org'')) \<and>
   fst (post_api_referrals example_backend
         (example_request(''course'' := None, ''refereeEmail'' \<mapsto> ''bob.y.org'')) example_db) =
     (400, ErrorBody ''All fields are required'')"
proof -
  have 2: "all_present (example_request(''refereeEmail'' \<mapsto> ''bob.y.org''))"
    unfolding all_present_def create_fields_def example_request_def by simp
  have 3: "\<not> matches_email_pattern ''bob.y.org''"
    unfolding emailRegex_test_iff[symmetric] emailRegex_def by (simp add: white_space_def)
  have 6: "to_string ((example_request(''refereeEmail'' \<mapsto> ''bob.y.org'')) ''refereeEmail'') = ''bob.y.org''"
    unfolding to_string_def by simp
  have a: "fst (post_api_referrals example_backend (example_request(''refereeEmail'' \<mapsto> ''bob.y.org''))
       example_db) = (400, ErrorBody ''Invalid email format'')"
    using email_check_decides[of example_backend "example_request(''refereeEmail'' \<mapsto> ''bob.y.org'')" example_db]
      2 3 unfolding 6 by simp
  have b: "fst (post_api_referrals example_backend example_request example_db) \<noteq>
     (400, ErrorBody ''Invalid email format'')"
    using email_check_decides[of example_backend example_request example_db]
      example_emails_match unfolding example_request_fields by simp
  have 7: "all_present (example_request(''refereeEmail'' \<mapsto> ''to bob@y.org now''))"
    unfolding all_present_def create_fields_def example_request_def by simp
  have 8: "matches_email_pattern ''to bob@y.org now''"
    unfolding emailRegex_test_iff[symmetric] emailRegex_def by (simp add: white_space_def)
  have 9: "to_string ((example_request(''refereeEmail'' \<mapsto> ''to bob@y.org now''))
              ''refereeEmail'') = ''to bob@y.org now''"
       "to_string ((example_request(''refereeEmail'' \<mapsto> ''to bob@y.org now''))
              ''referrerEmail'') = ''ann@x.org''"
    unfolding to_string_def example_request_def by simp_all
  have c: "fst (post_api_referrals example_backend
         (example_request(''refereeEmail'' \<mapsto> ''to bob@y.org now'')) example_db) \<noteq>
     (400, ErrorBody ''Invalid email format'')"
    using email_check_decides[of example_backend
        "example_request(''refereeEmail'' \<mapsto> ''to bob@y.org now'')" example_db]
      8 example_emails_match unfolding 9 by simp
  have 10: "\<not> all_present (example_request(''course'' := None, ''refereeEmail'' \<mapsto> ''bob.y.org''))"
    unfolding all_present_def create_fields_def by simp
  have m: "fst (post_api_referrals example_backend
         (example_request(''course'' := None, ''refereeEmail'' \<mapsto> ''bob.y.org'')) example_db) =
     (400, ErrorBody ''All fields are required'')"
    using email_check_decides[of example_backend
        "example_request(''course'' := None, ''refereeEmail'' \<mapsto> ''bob.y.org'')" example_db]
      10 by blast
  from a b c m 2 3 7 8 10 example_request_present example_emails_match show ?thesis by simp
qed

text \<open>
  Claim C10. The create handler reads the seven documented fields only: two bodies that
  agree on them get the same answer and the same database, whatever else they hold. When
  the answer is 201, the new row has status \<^verbatim>\<open>pending\<close> and the id of the table's
  counter, which is also the id in the answer.
\<close>

theorem create_reads_seven_fields:
  "((\<forall>k \<in> set create_fields. req k = req' k) \<longrightarrow>
      post_api_referrals be req d = post_api_referrals be req' d) \<and>
   (fst (fst (post_api_referrals be req d)) = 201 \<longrightarrow>
      fst (post_api_referrals be req d) =
        (201, CreatedBody (auto_increment d) ''Referral created successfully'') \<and>
      rows (snd (post_api_referrals be req d)) = rows d @ [request_row be d req] \<and>
      status (request_row be d req) = ''pending'' \<and>
      id_col (request_row be d req) = auto_increment d)"
proof -
  have "fst (post_api_referrals be req d) =
        (201, CreatedBody (auto_increment d) ''Referral created successfully'') \<and>
      rows (snd (post_api_referrals be req d)) = rows d @ [request_row be d req] \<and>
      status (request_row be d req) = ''pending'' \<and>
      id_col (request_row be d req) = auto_increment d"
    if ok: "fst (fst (post_api_referrals be req d)) = 201"
  proof -
    from post_201[OF ok] have v: "all_present req"
         "matches_email_pattern (to_string (req ''referrerEmail''))"
         "matches_email_pattern (to_string (req ''refereeEmail''))"
         "ten_digits (to_string (req ''referrerPhone''))"
         "ten_digits (to_string (req ''refereePhone''))" and t: "table_takes be d req"
      by simp_all
    show ?thesis unfolding post_accepted[OF v] using t
      by (simp add: request_row_def new_row_def)
  qed
  with post_same_fields[of req req' be d] show ?thesis by blast
qed

theorem create_reads_seven_fields_witness:
  "extra_fields_request ''status'' = Some ''completed'' \<and>
   extra_fields_request ''id'' = Some ''77'' \<and>
   post_api_referrals example_backend extra_fields_request example_db =
     post_api_referrals example_backend example_request example_db \<and>
   fst (post_api_referrals example_backend extra_fields_request example_db) =
     (201, CreatedBody 2 ''Referral created successfully'') \<and>
   rows (snd (post_api_referrals example_backend extra_fields_request example_db)) =
     [example_row, example_row\<lparr>id_col := 2\<rparr>] \<and>
   status (example_row\<lparr>id_col := 2\<rparr>) = ''pending''"
proof -
  note T = create_reads_seven_fields[of extra_fields_request example_request example_backend
      example_db]
  have e: "matches_email_pattern (to_string (example_request ''referrerEmail''))"
       "matches_email_pattern (to_string (example_request ''refereeEmail''))"
       "ten_digits (to_string (example_request ''referrerPhone''))"
       "ten_digits (to_string (example_request ''refereePhone''))"
    unfolding example_request_fields
    using example_emails_match example_phones_ten_digits by simp_all
  have 0: "extra_fields_request ''status'' = Some ''completed''"
      "extra_fields_request ''id'' = Some ''77''"
    unfolding extra_fields_request_def by simp_all
  have 1: "post_api_referrals example_backend extra_fields_request example_db =
     post_api_referrals example_backend example_request example_db"
    using T extra_fields_same by blast
  have c: "fst (fst (post_api_referrals example_backend extra_fields_request example_db)) = 201"
    unfolding 1 post_accepted[OF example_request_present e] using example_table_takes by simp
  have r: "request_row example_backend example_db extra_fields_request =
      example_row\<lparr>id_col := 2\<rparr>"
    unfolding request_row_def extra_fields_request_def new_row_def
    by (simp add: example_request_fields[unfolded to_string_def] to_string_def example_row_def
        example_db_def example_backend_def example_request_def)
  have 2: "fst (post_api_referrals example_backend extra_fields_request example_db) =
     (201, CreatedBody 2 ''Referral created successfully'')"
     "rows (snd (post_api_referrals example_backend extra_fields_request example_db)) =
     [example_row, example_row\<lparr>id_col := 2\<rparr>]"
    using T c unfolding r by (simp_all add: example_db_def)
  have 3: "status (example_row\<lparr>id_col := 2\<rparr>) = ''pending''"
    unfolding example_row_def by simp
  from 0 1 2 3 show ?thesis by simp
qed

section \<open>The two listings\<close>





text \<open>A sort by a key that tells all elements apart does not depend on the order before.\<close>

lemma sort_key_unique:
  assumes "distinct (map f xs)" and "mset ys = mset xs"
  shows "sort_key f ys = sort_key f xs"
proof -
  let ?a = "sort_key f ys" and ?b = "sort_key f xs"
  have m: "mset ?a = mset ?b" using assms(2) by simp
  then have s: "set ?a = set ?b" by (rule mset_eq_setD)
  have "mset (map f ?b) = mset (map f xs)" by simp
  then have db: "distinct (map f ?b)"
    using assms(1) mset_eq_imp_distinct_iff by blast
  have "mset (map f ?a) = mset (map f ?b)" using m by simp
  then have da: "distinct (map f ?a)"
    using db mset_eq_imp_distinct_iff by blast
  have "set (map f ?a) = set (map f ?b)" using s by simp
  with da db have e: "map f ?a = map f ?b"
    by (intro sorted_distinct_set_unique) simp_all
  have "inj_on f (set xs)" using assms(1) by (simp add: distinct_map)
  then have "inj_on f (set ?a \<union> set ?b)" using s by simp
  with e show ?thesis by (simp add: inj_on_map_eq_map)
qed


text \<open>
  The ranks cover every order that the statement allows: each arrangement of the rows
  from the latest timestamp to the earliest is the result under some rank.
\<close>

lemma position_map: "distinct ys \<Longrightarrow> map (position ys) ys = [0..<length ys]"
proof (induction ys)
  case Nil
  then show ?case by simp
next
  case (Cons x xs)
  then have "map (position (x # xs)) xs = map (Suc \<circ> position xs) xs"
    by (auto simp: position_def)
  also have "\<dots> = map Suc [0..<length xs]"
    using Cons by (simp flip: map_map)
  finally have t: "map (position (x # xs)) xs = map Suc [0..<length xs]" .
  have "map (position (x # xs)) (x # xs) = 0 # map (position (x # xs)) xs"
    by (simp add: position_def)
  also have "\<dots> = 0 # [Suc 0..<Suc (length xs)]"
    unfolding t by (simp only: map_Suc_upt)
  also have "\<dots> = [0..<length (x # xs)]"
    by (simp add: upt_conv_Cons del: upt_Suc)
  finally show ?case .
qed

lemma every_tie_order_arises:
  assumes "distinct rs" and "mset ys = mset rs"
      and "sorted_wrt (\<lambda>r s. created_at r \<ge> created_at s) ys"
  shows "order_by_created_at_desc (be\<lparr>tie_rank := position ys\<rparr>) rs = ys"
proof -
  have d: "distinct ys" using assms(1,2) mset_eq_imp_distinct_iff by blast
  have m: "map (position ys) ys = [0..<length ys]" using d by (rule position_map)
  have "sort_key (position ys) rs = sort_key (position ys) ys"
    using assms(2) by (intro sort_key_unique) (simp_all add: m)
  also have "\<dots> = ys" by (intro sort_key_id_if_sorted) (simp add: m)
  finally have 1: "sort_key (position ys) rs = ys" .
  have "sorted (map (\<lambda>r. - int (created_at r)) ys)"
    using assms(3) by (simp add: sorted_map)
  then have "sort_key (\<lambda>r. - int (created_at r)) ys = ys" by (rule sort_key_id_if_sorted)
  with 1 show ?thesis unfolding order_by_created_at_desc_def by simp
qed









section \<open>What the handlers keep\<close>

lemma get_all_rows:
  "rows (snd (get_api_referrals be d)) = rows d"
  "auto_increment (snd (get_api_referrals be d)) = auto_increment d"
  unfolding get_api_referrals_def db_query_def Let_def by (cases "fault be"; simp)+

lemma get_by_referrer_rows:
  "rows (snd (get_api_referrals_referrer be email d)) = rows d"
  "auto_increment (snd (get_api_referrals_referrer be email d)) = auto_increment d"
  unfolding get_api_referrals_referrer_def db_query_def Let_def by (cases "fault be"; simp)+

lemma get_statistics_rows:
  "rows (snd (get_api_statistics be d)) = rows d"
  "auto_increment (snd (get_api_statistics be d)) = auto_increment d"
  unfolding get_api_statistics_def db_query_def Let_def by (cases "fault be"; simp)+

lemma post_rows:
  "rows (snd (post_api_referrals be req d)) =
     (if fst (fst (post_api_referrals be req d)) = 201
      then rows d @ [request_row be d req] else rows d)"
  "auto_increment (snd (post_api_referrals be req d)) =
     (if fst (fst (post_api_referrals be req d)) = 201
      then Suc (auto_increment d) else auto_increment d)"
proof -
  have "rows (snd (post_api_referrals be req d)) =
     (if fst (fst (post_api_referrals be req d)) = 201
      then rows d @ [request_row be d req] else rows d) \<and>
   auto_increment (snd (post_api_referrals be req d)) =
     (if fst (fst (post_api_referrals be req d)) = 201
      then Suc (auto_increment d) else auto_increment d)"
  proof (cases "all_present req \<and>
         matches_email_pattern (to_string (req ''referrerEmail'')) \<and>
         matches_email_pattern (to_string (req ''refereeEmail'')) \<and>
         ten_digits (to_string (req ''referrerPhone'')) \<and>
         ten_digits (to_string (req ''refereePhone''))")
    case True
    then have v: "all_present req"
         "matches_email_pattern (to_string (req ''referrerEmail''))"
         "matches_email_pattern (to_string (req ''refereeEmail''))"
         "ten_digits (to_string (req ''referrerPhone''))"
         "ten_digits (to_string (req ''refereePhone''))" by simp_all
    show ?thesis unfolding post_accepted[OF v] by simp
  next
    case False
    then have "post_api_referrals be req d = ((400, ErrorBody ''All fields are required''), d) \<or>
       post_api_referrals be req d = ((400, ErrorBody ''Invalid email format''), d) \<or>
       post_api_referrals be req d = ((400, ErrorBody ''Phone number must be 10 digits''), d)"
      using post_missing[of req be d] post_bad_email[of req be d] post_bad_phone[of req be d]
      by blast
    then show ?thesis by auto
  qed
  then show "rows (snd (post_api_referrals be req d)) =
     (if fst (fst (post_api_referrals be req d)) = 201
      then rows d @ [request_row be d req] else rows d)"
    "auto_increment (snd (post_api_referrals be req d)) =
     (if fst (fst (post_api_referrals be req d)) = 201
      then Suc (auto_increment d) else auto_increment d)" by simp_all
qed

lemma patch_rows:
  "(rows (snd (patch_api_referrals be i req d)) = rows d \<or>
    (\<exists>st \<in> set status_enum.
       rows (snd (patch_api_referrals be i req d)) = map (update_row be st i) (rows d))) \<and>
   auto_increment (snd (patch_api_referrals be i req d)) = auto_increment d"
proof (cases "\<forall>s \<in> set status_enum. req ''status'' \<noteq> Some s")
  case True
  from patch_invalid[where req=req, OF True] show ?thesis by simp
next
  case False
  then obtain st where st: "req ''status'' = Some st" "st \<in> set status_enum" by auto
  show ?thesis unfolding patch_valid[where req=req, OF st] using st(2) by auto
qed

lemma update_row_keeps_id: "id_col (update_row be st i r) = id_col r"
  unfolding update_row_def by simp

lemma update_row_status:
  "st \<in> set status_enum \<Longrightarrow> status r \<in> set status_enum \<Longrightarrow>
     status (update_row be st i r) \<in> set status_enum"
  unfolding update_row_def by simp

lemma request_row_facts:
  "id_col (request_row be d req) = auto_increment d"
  "status (request_row be d req) = ''pending''"
  unfolding request_row_def new_row_def by simp_all

lemma pending_in_enum: "''pending'' \<in> set status_enum"
  unfolding status_enum_def by simp

lemma invariant_post: "table_invariant d \<Longrightarrow> table_invariant (snd (post_api_referrals be req d))"
  unfolding table_invariant_def primary_key_def ids_below_counter_def post_rows
  by (auto simp: request_row_facts pending_in_enum less_Suc_eq)

lemma invariant_patch:
  assumes "table_invariant d"
  shows "table_invariant (snd (patch_api_referrals be i req d))"
proof -
  from patch_rows[of be i req d]
  have a: "auto_increment (snd (patch_api_referrals be i req d)) = auto_increment d"
    and r: "rows (snd (patch_api_referrals be i req d)) = rows d \<or>
    (\<exists>st \<in> set status_enum.
       rows (snd (patch_api_referrals be i req d)) = map (update_row be st i) (rows d))"
    by simp_all
  from r show ?thesis
  proof
    assume "rows (snd (patch_api_referrals be i req d)) = rows d"
    with a assms show ?thesis
      unfolding table_invariant_def primary_key_def ids_below_counter_def by simp
  next
    assume "\<exists>st \<in> set status_enum.
       rows (snd (patch_api_referrals be i req d)) = map (update_row be st i) (rows d)"
    then obtain st where st: "st \<in> set status_enum"
      and m: "rows (snd (patch_api_referrals be i req d)) = map (update_row be st i) (rows d)"
      by blast
    have ids: "map id_col (map (update_row be st i) (rows d)) = map id_col (rows d)"
      by (simp add: update_row_keeps_id)
    show ?thesis
      using assms st unfolding table_invariant_def primary_key_def ids_below_counter_def m a ids
      by (auto simp: update_row_keeps_id update_row_status)
  qed
qed

lemma reachable_invariant: "reachable d \<Longrightarrow> table_invariant d"
proof (induction rule: reachable.induct)
  case init
  show ?case
    unfolding table_invariant_def primary_key_def ids_below_counter_def empty_db_def by simp
next
  case (list_all d be)
  then show ?case
    unfolding table_invariant_def primary_key_def ids_below_counter_def get_all_rows by simp
next
  case (list_by d be email)
  then show ?case
    unfolding table_invariant_def primary_key_def ids_below_counter_def get_by_referrer_rows by simp
next
  case (create d be req)
  then show ?case by (simp add: invariant_post)
next
  case (update d be i req)
  then show ?case by (simp add: invariant_patch)
next
  case (stats d be)
  then show ?case
    unfolding table_invariant_def primary_key_def ids_below_counter_def get_statistics_rows by simp
qed

lemma empty_table_takes: "table_takes example_backend empty_db example_request"
  unfolding table_takes_def example_request_fields
  by (simp add: example_backend_def empty_db_def INT_MAX_def too_long_def)

lemma created_db_eq:
  "created_db = \<lparr>rows = [example_row], auto_increment = 2,
                  issued = [request_insert example_request]\<rparr>"
proof -
  have e: "matches_email_pattern (to_string (example_request ''referrerEmail''))"
       "matches_email_pattern (to_string (example_request ''refereeEmail''))"
       "ten_digits (to_string (example_request ''referrerPhone''))"
       "ten_digits (to_string (example_request ''refereePhone''))"
    unfolding example_request_fields
    using example_emails_match example_phones_ten_digits by simp_all
  have r: "request_row example_backend empty_db example_request = example_row"
    unfolding request_row_def new_row_def example_request_fields
    by (simp add: example_row_def empty_db_def example_backend_def)
  show ?thesis
    unfolding created_db_def post_accepted[OF example_request_present e] r
    using empty_table_takes by (simp add: empty_db_def)
qed

lemma enrolled_db_rows:
  "rows enrolled_db = [example_row\<lparr>status := ''enrolled'', updated_at := 2000\<rparr>]"
proof -
  have a: "''enrolled'' \<in> set status_enum" unfolding status_enum_def by simp
  have c: "[''status'' \<mapsto> ''enrolled''] ''status'' = Some ''enrolled''" by simp
  show ?thesis
    unfolding enrolled_db_def patch_valid[where req="[''status'' \<mapsto> ''enrolled'']", OF c a]
      created_db_eq
    by (simp add: later_backend_def update_row_def example_row_def)
qed

text \<open>
  Claim C8. In every state that requests to the routes lead to from the table as
  created, the status of every row is one of \<^verbatim>\<open>pending\<close>, \<^verbatim>\<open>contacted\<close>,
  \<^verbatim>\<open>enrolled\<close>, \<^verbatim>\<open>completed\<close>.
\<close>

theorem status_always_in_enum:
  "reachable d \<Longrightarrow> \<forall>r \<in> set (rows d). status r \<in> set status_enum"
  using reachable_invariant unfolding table_invariant_def by blast


theorem status_always_in_enum_witness:
  "reachable enrolled_db \<and> map status (rows enrolled_db) = [''enrolled''] \<and>
   status ` set (rows enrolled_db) \<subseteq> set status_enum"
proof -
  have "reachable created_db"
    unfolding created_db_def by (rule reachable.create[OF reachable.init])
  then have r: "reachable enrolled_db"
    unfolding enrolled_db_def by (rule reachable.update)
  from status_always_in_enum[OF r] have "status ` set (rows enrolled_db) \<subseteq> set status_enum"
    by blast
  moreover have "map status (rows enrolled_db) = [''enrolled'']"
    unfolding enrolled_db_rows by simp
  ultimately show ?thesis using r by simp
qed

section \<open>The statistics\<close>

lemma get_statistics_ok:
  "\<not> fault be \<Longrightarrow>
     get_api_statistics be d =
       ((200, StatisticsBody (select_statistics d)), d\<lparr>issued := issued d @ [SelectStatistics]\<rparr>)"
  unfolding get_api_statistics_def db_query_def select_statistics_def Let_def by simp

lemma case_when_sum:
  assumes "\<forall>r \<in> set rs. status r \<in> set status_enum"
  shows "sum_list (map (case_when_status ''pending'') rs) +
         sum_list (map (case_when_status ''contacted'') rs) +
         sum_list (map (case_when_status ''enrolled'') rs) +
         sum_list (map (case_when_status ''completed'') rs) = length rs"
  using assms
proof (induction rs)
  case Nil
  then show ?case by simp
next
  case (Cons r rs)
  then have "status r \<in> set status_enum" by simp
  then have "case_when_status ''pending'' r + case_when_status ''contacted'' r +
             case_when_status ''enrolled'' r + case_when_status ''completed'' r = 1"
    unfolding status_enum_def case_when_status_def by auto
  with Cons show ?case by simp
qed

text \<open>
  On a table that is not empty the four counts are the decimal notations of numbers
  that add up to the total.
\<close>

lemma statistics_sum_nonempty:
  assumes "rows d \<noteq> []" and "\<forall>r \<in> set (rows d). status r \<in> set status_enum"
  shows "\<exists>p c e m. select_statistics d =
           \<lparr>total_referrals = length (rows d), pending_referrals = Some (decimal p),
            contacted_referrals = Some (decimal c), enrolled_referrals = Some (decimal e),
            completed_referrals = Some (decimal m)\<rparr> \<and> p + c + e + m = length (rows d)"
  using assms(1) case_when_sum[OF assms(2)]
  unfolding select_statistics_def sql_sum_def by auto

lemma statistics_three_rows:
  "fst (get_api_statistics example_backend three_rows_db) =
     (200, StatisticsBody
       \<lparr>total_referrals = 3, pending_referrals = Some ''3'', contacted_referrals = Some ''0'',
        enrolled_referrals = Some ''0'', completed_referrals = Some ''0''\<rparr>)"
  by (simp add: get_statistics_ok select_statistics_def sql_sum_def case_when_status_def
      three_rows_db_def example_row_def second_row_def third_row_def example_backend_def
      decimal.simps)

text \<open>
  Claim C6 speaks of five numbers for every population, the empty one included. On the
  empty table the handler answers with the total 0 and with NULL for each of the four
  status counts, since a \<^verbatim>\<open>SUM\<close> over no rows is NULL.
\<close>

theorem statistics_of_empty_table:
  "fst (get_api_statistics (be\<lparr>fault := False\<rparr>) (d\<lparr>rows := []\<rparr>)) =
     (200, StatisticsBody
       \<lparr>total_referrals = 0, pending_referrals = None, contacted_referrals = None,
        enrolled_referrals = None, completed_referrals = None\<rparr>)"
  by (simp add: get_statistics_ok select_statistics_def sql_sum_def)


end
